theory Spec2Isabelle
  imports Main
begin

section \<open>Python values and errors\<close>

text \<open>
  The arguments of \<^verbatim>\<open>create\<close> are Python dictionaries and lists. A dictionary with
  string keys is an association list; \<^verbatim>\<open>d.get(k)\<close> is the stored value or \<^verbatim>\<open>None\<close>.
\<close>

datatype pyval =
    PyNone
  | PyBool bool
  | PyInt int
  | PyStr string
  | PyList "pyval list"
  | PyDict "(string \<times> pyval) list"

type_synonym pydict = "(string \<times> pyval) list"

fun truthy :: "pyval \<Rightarrow> bool" where
  "truthy PyNone = False"
| "truthy (PyBool b) = b"
| "truthy (PyInt i) = (i \<noteq> 0)"
| "truthy (PyStr s) = (s \<noteq> [])"
| "truthy (PyList l) = (l \<noteq> [])"
| "truthy (PyDict d) = (d \<noteq> [])"

definition dict_get :: "pydict \<Rightarrow> string \<Rightarrow> pyval" where
  "dict_get d k = (case map_of d k of None \<Rightarrow> PyNone | Some v \<Rightarrow> v)"

text \<open>
  Every exception \<^verbatim>\<open>create\<close> and \<^verbatim>\<open>load\<close> can end with. The two \<^verbatim>\<open>ValueError\<close>s of
  \<^verbatim>\<open>create\<close> are kept apart by their message.
\<close>

datatype error =
    ValueError_NotDataFrame
  | InvalidPathError
  | DatasetAlreadyExists
  | InvalidConfigError
  | AttributeError
  | UnboundLocalError
  | DatasetNotFound
  | IOError

section \<open>Data model\<close>

record Column =
  col_name :: string
  col_type :: string
  col_description :: "string option"
  col_expression :: "string option"
  col_alias :: "string option"

record Relation =
  rel_type :: string
  rel_source :: string
  rel_target :: string

record Source =
  src_type :: string
  src_table :: "string option"

record Transformation =
  tr_type :: string
  tr_params :: pydict

record SemanticLayerSchema =
  name :: string
  description :: "string option"
  columns :: "Column list option"
  source :: "Source option"
  relations :: "Relation list option"
  group_by :: "string list option"
  transformations :: "Transformation list option"
  view :: bool

text \<open>The columnar payload: each column is its label and its cells.\<close>

type_synonym table = "(string \<times> pyval list) list"

record DataFrame =
  schema :: SemanticLayerSchema
  data :: table

text \<open>
  What the caller passes as \<^verbatim>\<open>df\<close>: \<^verbatim>\<open>None\<close>, a PandasAI \<^verbatim>\<open>DataFrame\<close>, or an
  object of another class, which the \<^verbatim>\<open>isinstance\<close> test of \<^verbatim>\<open>create\<close> rejects.
\<close>

datatype df_arg = DfNone | DfOther | DfFrame DataFrame

datatype dataset = ConcreteDataFrame DataFrame | VirtualDataFrame SemanticLayerSchema

text \<open>\<^verbatim>\<open>df.schema\<close>, where \<^verbatim>\<open>df\<close> is a DataFrame.\<close>

definition df_schema :: "df_arg \<Rightarrow> SemanticLayerSchema option" where
  "df_schema df = (case df of DfFrame d \<Rightarrow> Some (schema d) | _ \<Rightarrow> None)"

section \<open>Path helpers\<close>

text \<open>\<^verbatim>\<open>os.path.join\<close> of two components (POSIX).\<close>

definition os_path_join :: "string \<Rightarrow> string \<Rightarrow> string" where
  "os_path_join a b =
     (if b \<noteq> [] \<and> hd b = CHR ''/'' then b
      else if a = [] \<or> last a = CHR ''/'' then a @ b
      else a @ ''/'' @ b)"

text \<open>
  Modelled from the spec: the segments of a path, as section 4.1 counts them: the pieces
  between the separators, an empty piece included.
\<close>

fun split_on :: "char \<Rightarrow> string \<Rightarrow> string list" where
  "split_on c [] = [ [] ]"
| "split_on c (x # xs) =
     (if x = c then [] # split_on c xs
      else (case split_on c xs of
              [] \<Rightarrow> [ [x] ]
            | y # ys \<Rightarrow> (x # y) # ys))"

text \<open>Modelled from the spec: the character class \<^verbatim>\<open>[a-z0-9]\<close> of section 4.1.\<close>

definition lower_alnum :: "char \<Rightarrow> bool" where
  "lower_alnum c = (c \<in> set ''abcdefghijklmnopqrstuvwxyz0123456789'')"

text \<open>Modelled from the spec: a segment matches \<^verbatim>\<open>[a-z0-9][a-z0-9-]*\<close> (section 4.1).\<close>

definition valid_segment :: "string \<Rightarrow> bool" where
  "valid_segment s =
     (case s of
        [] \<Rightarrow> False
      | c # cs \<Rightarrow> lower_alnum c \<and> list_all (\<lambda>d. lower_alnum d \<or> d = CHR ''-'') cs)"

text \<open>
  Modelled from the spec: \<^verbatim>\<open>get_validated_dataset_path\<close> of \<^verbatim>\<open>pandasai.helpers.path\<close> is
  not among the sources. Section 4.1: the path has exactly two segments separated by
  \<^verbatim>\<open>/\<close>, each matching \<^verbatim>\<open>[a-z0-9][a-z0-9-]*\<close>; otherwise \<^verbatim>\<open>InvalidPathError\<close>
  (here \<open>None\<close>).
\<close>

definition get_validated_dataset_path :: "string \<Rightarrow> (string \<times> string) option" where
  "get_validated_dataset_path path =
     (case split_on (CHR ''/'') path of
        [org_name, dataset_name] \<Rightarrow>
          if valid_segment org_name \<and> valid_segment dataset_name
          then Some (org_name, dataset_name) else None
      | _ \<Rightarrow> None)"

text \<open>
  Modelled from the spec: \<^verbatim>\<open>transform_dash_to_underscore\<close> of \<^verbatim>\<open>pandasai.helpers.path\<close>
  is not among the sources. Section 4.1: a pure function that converts hyphens to
  underscores.
\<close>

definition transform_dash_to_underscore :: "string \<Rightarrow> string" where
  "transform_dash_to_underscore s = map (\<lambda>c. if c = CHR ''-'' then CHR ''_'' else c) s"

section \<open>File manager\<close>

text \<open>
  Modelled from the spec: \<^verbatim>\<open>schema.to_yaml()\<close> and the parquet writer are not among the
  sources. Section 6: \<^verbatim>\<open>schema.yaml\<close> holds every field of the schema and \<^verbatim>\<open>data.parquet\<close>
  holds the columnar payload. A file is therefore the schema or the payload it stores.
\<close>

datatype content = Descriptor SemanticLayerSchema | Parquet table

text \<open>
  The state of the storage: the directories and the files that exist, by absolute path.
  \<open>project_root\<close> is what \<^verbatim>\<open>find_project_root()\<close> returns.
\<close>

record file_manager =
  project_root :: string
  dirs :: "string set"
  files :: "string \<rightharpoonup> content"

text \<open>
  Modelled from the spec: the file manager of \<^verbatim>\<open>config.get()\<close> is not among the sources.
  Section 6 gives its interface, \<^verbatim>\<open>exists\<close>, \<^verbatim>\<open>mkdir\<close>, \<^verbatim>\<open>write\<close> and \<^verbatim>\<open>abs_path\<close>, over a
  storage root. The storage root is the \<^verbatim>\<open>datasets\<close> directory of the project root, where
  line 268 of \<^verbatim>\<open>load\<close> looks for a dataset.
\<close>

definition storage_root :: "file_manager \<Rightarrow> string" where
  "storage_root fm = os_path_join (project_root fm) ''datasets''"

text \<open>Modelled from the spec: \<^verbatim>\<open>abs_path(path)\<close> of section 6, the path under the storage root.\<close>

definition fm_abs_path :: "file_manager \<Rightarrow> string \<Rightarrow> string" where
  "fm_abs_path fm p = os_path_join (storage_root fm) p"

text \<open>\<^verbatim>\<open>os.path.exists\<close>: a directory or a file is there.\<close>

definition os_path_exists :: "file_manager \<Rightarrow> string \<Rightarrow> bool" where
  "os_path_exists fm p = (p \<in> dirs fm \<or> files fm p \<noteq> None)"

text \<open>Modelled from the spec: \<^verbatim>\<open>exists(path)\<close> of section 6.\<close>

definition fm_exists :: "file_manager \<Rightarrow> string \<Rightarrow> bool" where
  "fm_exists fm p = os_path_exists fm (fm_abs_path fm p)"

text \<open>
  Modelled from the spec: \<^verbatim>\<open>mkdir(path)\<close> of section 6, idempotent if the directory is
  already present (section 4.3, step 2).
\<close>

definition fm_mkdir :: "file_manager \<Rightarrow> string \<Rightarrow> file_manager" where
  "fm_mkdir fm p = fm\<lparr>dirs := insert (fm_abs_path fm p) (dirs fm)\<rparr>"

text \<open>Modelled from the spec: \<^verbatim>\<open>write(path, content)\<close> of section 6.\<close>

definition fm_write :: "file_manager \<Rightarrow> string \<Rightarrow> content \<Rightarrow> file_manager" where
  "fm_write fm p c = fm\<lparr>files := (files fm)(fm_abs_path fm p \<mapsto> c)\<rparr>"

text \<open>
  Modelled from the spec: \<^verbatim>\<open>df.to_parquet(abs_path, index=False)\<close> of the class \<^verbatim>\<open>DataFrame\<close>,
  which is not among the sources. Section 4.3, step 3: the columnar payload is written to
  the given path.
\<close>

definition to_parquet :: "DataFrame \<Rightarrow> string \<Rightarrow> file_manager \<Rightarrow> file_manager" where
  "to_parquet d p fm = fm\<lparr>files := (files fm)(p \<mapsto> Parquet (data d))\<rparr>"

section \<open>Schema validation\<close>

text \<open>
  Modelled from the spec: section 3, a column with a non-empty expression is an
  aggregated column, one without is a plain column.
\<close>

definition aggregated :: "Column \<Rightarrow> bool" where
  "aggregated c = (case col_expression c of None \<Rightarrow> False | Some e \<Rightarrow> e \<noteq> [])"

text \<open>An omitted column list or \<^verbatim>\<open>group_by\<close> list has no entries.\<close>

definition the_columns :: "SemanticLayerSchema \<Rightarrow> Column list" where
  "the_columns s = (case columns s of None \<Rightarrow> [] | Some cs \<Rightarrow> cs)"

definition the_group_by :: "SemanticLayerSchema \<Rightarrow> string list" where
  "the_group_by s = (case group_by s of None \<Rightarrow> [] | Some g \<Rightarrow> g)"

text \<open>The names of the plain columns.\<close>

definition plain_names :: "SemanticLayerSchema \<Rightarrow> string list" where
  "plain_names s = map col_name (filter (\<lambda>c. \<not> aggregated c) (the_columns s))"

text \<open>
  Modelled from the spec: the class \<^verbatim>\<open>SemanticLayerSchema\<close> and its validation are not
  among the sources. Section 4.2 lists the checks of \<^verbatim>\<open>validate\<close>, in order.

  Check 1: the name is a lowercase identifier, usable as a path segment and as an SQL
  table name, with no hyphen (section 3).
\<close>

definition check_name :: "SemanticLayerSchema \<Rightarrow> bool" where
  "check_name s =
     (name s \<noteq> [] \<and> list_all (\<lambda>c. lower_alnum c \<or> c = CHR ''_'') (name s))"

text \<open>
  Modelled from the spec: check 2 of section 4.2. The column list, if present, has unique
  names; every \<^verbatim>\<open>group_by\<close> entry is the name of an existing plain column.
\<close>

definition check_columns :: "SemanticLayerSchema \<Rightarrow> bool" where
  "check_columns s =
     (distinct (map col_name (the_columns s)) \<and>
      list_all (\<lambda>g. g \<in> set (plain_names s)) (the_group_by s))"

text \<open>
  Modelled from the spec: check 3 of section 4.2. If any column carries an expression,
  either \<^verbatim>\<open>group_by\<close> is non-empty and covers all non-aggregated columns, or no plain
  column exists alongside the aggregated ones.
\<close>

definition check_aggregation :: "SemanticLayerSchema \<Rightarrow> bool" where
  "check_aggregation s =
     (if list_ex aggregated (the_columns s)
      then (the_group_by s \<noteq> [] \<and> list_all (\<lambda>n. n \<in> set (the_group_by s)) (plain_names s))
           \<or> plain_names s = []
      else True)"

text \<open>
  Modelled from the spec: check 4 of section 4.2. The kind is detected by the presence of
  fields (section 9): a source makes the dataset source-backed, the view flag makes it a
  view, and a schema with neither describes raw data supplied from outside. A schema with
  both a source and the view flag is a conflict.
\<close>

datatype DatasetKind = Materialized | SourceBacked | View

definition kind_indicators :: "SemanticLayerSchema \<Rightarrow> DatasetKind list" where
  "kind_indicators s =
     (if source s \<noteq> None then [SourceBacked] else []) @ (if view s then [View] else [])"

text \<open>Modelled from the spec: check 4 passes unless the indicators conflict.\<close>

definition check_kind :: "SemanticLayerSchema \<Rightarrow> bool" where
  "check_kind s = (length (kind_indicators s) \<le> 1)"

text \<open>
  Modelled from the spec: the kind on which the loader dispatches (section 4.4), read off
  the same fields.
\<close>

definition kind_of :: "SemanticLayerSchema \<Rightarrow> DatasetKind" where
  "kind_of s = (case kind_indicators s of [] \<Rightarrow> Materialized | k # _ \<Rightarrow> k)"

text \<open>
  Modelled from the spec: \<^verbatim>\<open>validate\<close> of section 4.2, short-circuiting on the first
  failed check; every failure is an \<^verbatim>\<open>InvalidConfigError\<close> (section 7). Check 5, the
  shape of the transformation entries, is decided when the entries are built (a
  \<open>Transformation\<close> record always has a type and a parameter mapping), so it has no
  case of its own here.
\<close>

definition validate :: "SemanticLayerSchema \<Rightarrow> error option" where
  "validate s =
     (if \<not> check_name s then Some InvalidConfigError
      else if \<not> check_columns s then Some InvalidConfigError
      else if \<not> check_aggregation s then Some InvalidConfigError
      else if \<not> check_kind s then Some InvalidConfigError
      else None)"

section \<open>Collaborators outside the sources\<close>

text \<open>
  The constructors \<^verbatim>\<open>Column(**d)\<close>, \<^verbatim>\<open>Transformation(**d)\<close>, \<^verbatim>\<open>Relation(**d)\<close> and
  \<^verbatim>\<open>Source(**d)\<close>, the helper \<^verbatim>\<open>sanitize_sql_table_name\<close> and the interpretation of one
  transformation on a payload are not among the sources, and the spec leaves their
  details open. They are parameters of the model: a constructor returns \<open>None\<close> where
  the Python one raises on a malformed dictionary.
\<close>

record collaborators =
  make_Column :: "pydict \<Rightarrow> Column option"
  make_Transformation :: "pydict \<Rightarrow> Transformation option"
  make_Relation :: "pydict \<Rightarrow> Relation option"
  make_Source :: "pydict \<Rightarrow> Source option"
  sanitize_sql_table_name :: "string \<Rightarrow> string"
  apply_transformation :: "Transformation \<Rightarrow> table \<Rightarrow> table"

section \<open>Dataset loader\<close>

text \<open>
  Modelled from the spec: section 4.4, the transformation list is applied in declared
  order. An omitted list applies nothing.
\<close>

definition apply_transformations ::
  "collaborators \<Rightarrow> Transformation list option \<Rightarrow> table \<Rightarrow> table" where
  "apply_transformations X ts t =
     foldl (\<lambda>acc tr. apply_transformation X tr acc) t (case ts of None \<Rightarrow> [] | Some l \<Rightarrow> l)"

text \<open>
  Modelled from the spec: \<^verbatim>\<open>DatasetLoader\<close> is not among the sources. Section 4.4:
  \<^verbatim>\<open>load()\<close> dispatches on the schema kind. A materialized dataset reads the columnar
  artifact, applies the transformation list in declared order and returns a concrete
  table bound to the schema; a source-backed dataset or a view returns a lazily backed
  dataset and touches no data. A missing columnar artifact is an I/O error.
\<close>

definition loader_load ::
  "collaborators \<Rightarrow> SemanticLayerSchema \<Rightarrow> string \<Rightarrow> file_manager \<Rightarrow> error + dataset" where
  "loader_load X s path fm =
     (if kind_of s = Materialized then
        (case files fm (fm_abs_path fm (os_path_join path ''data.parquet'')) of
           Some (Parquet t) \<Rightarrow>
             Inr (ConcreteDataFrame
                   \<lparr>schema = s, data = apply_transformations X (transformations s) t\<rparr>)
         | _ \<Rightarrow> Inl IOError)
      else Inr (VirtualDataFrame s))"

text \<open>
  Modelled from the spec: \<^verbatim>\<open>create_loader_from_path\<close> followed by \<^verbatim>\<open>load()\<close>. Section 4.4:
  the descriptor is read from disk, deserialized and re-validated; with no descriptor at
  the resolved location the call fails with \<^verbatim>\<open>DatasetNotFound\<close>, and a schema that fails
  re-validation gives \<^verbatim>\<open>InvalidConfigError\<close>. The name is sanitized by the loader just
  before dispatch (section 3, lifecycle).
\<close>

definition create_loader_from_path ::
  "collaborators \<Rightarrow> string \<Rightarrow> file_manager \<Rightarrow> error + dataset" where
  "create_loader_from_path X path fm =
     (case files fm (fm_abs_path fm (os_path_join path ''schema.yaml'')) of
        None \<Rightarrow> Inl DatasetNotFound
      | Some (Parquet t) \<Rightarrow> Inl InvalidConfigError
      | Some (Descriptor s) \<Rightarrow>
          (case validate s of
             Some e \<Rightarrow> Inl e
           | None \<Rightarrow> loader_load X (s\<lparr>name := sanitize_sql_table_name X (name s)\<rparr>) path fm))"

section \<open>create\<close>

text \<open>
  \<^verbatim>\<open>[C(**x) for x in xs] if xs else None\<close>: an absent or empty list gives \<^verbatim>\<open>None\<close>, and
  one malformed entry makes the whole comprehension raise.
\<close>

definition parse_all :: "('a \<Rightarrow> 'b option) \<Rightarrow> 'a list option \<Rightarrow> error + 'b list option" where
  "parse_all mk xs =
     (case xs of
        None \<Rightarrow> Inr None
      | Some l \<Rightarrow>
          if l = [] then Inr None
          else (case those (map mk l) of
                  None \<Rightarrow> Inl InvalidConfigError
                | Some ys \<Rightarrow> Inr (Some ys)))"

text \<open>\<^verbatim>\<open>description or schema.description\<close>: an absent or empty string is falsy.\<close>

definition py_or :: "string option \<Rightarrow> string option \<Rightarrow> string option" where
  "py_or a b = (case a of None \<Rightarrow> b | Some x \<Rightarrow> if x = [] then b else Some x)"

text \<open>
  In the branch with a DataFrame the local \<^verbatim>\<open>schema\<close> is the object \<^verbatim>\<open>df.schema\<close> itself,
  so every assignment to a field of \<^verbatim>\<open>schema\<close> is seen by the caller through \<^verbatim>\<open>df\<close>.
  \<open>alias_schema\<close> writes the local schema back into the caller's DataFrame.
\<close>

definition alias_schema :: "df_arg \<Rightarrow> SemanticLayerSchema \<Rightarrow> df_arg" where
  "alias_schema df s = (case df of DfFrame d \<Rightarrow> DfFrame (d\<lparr>schema := s\<rparr>) | _ \<Rightarrow> df)"

text \<open>
  Lines 195 to 203, which the three branches share: the description override, the write of
  the descriptor, the sanitization of the name and the hand-over to the loader. The
  \<^verbatim>\<open>print\<close> has no effect on the state modelled here.
\<close>

definition create_finish ::
  "collaborators \<Rightarrow> string \<Rightarrow> string \<Rightarrow> string option \<Rightarrow> SemanticLayerSchema \<Rightarrow>
   file_manager \<Rightarrow> df_arg \<Rightarrow> (error + dataset) \<times> file_manager \<times> df_arg" where
  "create_finish X path schema_path desc s fm df =
     (let s1 = s\<lparr>description := py_or desc (description s)\<rparr>;
          fm1 = fm_write fm schema_path (Descriptor s1);
          s2 = s1\<lparr>name := sanitize_sql_table_name X (name s1)\<rparr>
      in (loader_load X s2 path fm1, fm1, alias_schema df s2))"

text \<open>Lines 163 to 175: the branch \<^verbatim>\<open>df is not None\<close>.\<close>

definition create_from_df ::
  "collaborators \<Rightarrow> string \<Rightarrow> string \<Rightarrow> string \<Rightarrow> string \<Rightarrow> DataFrame \<Rightarrow> string option \<Rightarrow>
   Column list option \<Rightarrow> string list option \<Rightarrow> Transformation list option \<Rightarrow>
   file_manager \<Rightarrow> (error + dataset) \<times> file_manager \<times> df_arg" where
  "create_from_df X path underscore_dataset_name schema_path parquet_file_path d desc
       parsed_columns gb parsed_transformations fm =
     (let s0 = schema d;
          s1 = s0\<lparr>name := underscore_dataset_name\<rparr>;
          s2 = s1\<lparr>transformations := parsed_transformations\<rparr>;
          s3 = (case parsed_columns of
                  None \<Rightarrow> s2
                | Some pcs \<Rightarrow> if pcs \<noteq> [] then s2\<lparr>columns := Some pcs\<rparr> else s2);
          s4 = (case gb of None \<Rightarrow> s3 | Some g \<Rightarrow> s3\<lparr>group_by := Some g\<rparr>)
      in case validate s4 of
           Some e \<Rightarrow> (Inl e, fm, DfFrame (d\<lparr>schema := s4\<rparr>))
         | None \<Rightarrow>
             (let parquet_file_path_abs_path = fm_abs_path fm parquet_file_path;
                  fm1 = to_parquet d parquet_file_path_abs_path fm
              in create_finish X path schema_path desc s4 fm1 (DfFrame (d\<lparr>schema := s4\<rparr>))))"

text \<open>Lines 176 to 185: the branch \<^verbatim>\<open>view\<close>. The constructor validates the schema.\<close>

definition create_view ::
  "collaborators \<Rightarrow> string \<Rightarrow> string \<Rightarrow> string \<Rightarrow> string option \<Rightarrow> pydict list option \<Rightarrow>
   Column list option \<Rightarrow> string list option \<Rightarrow> Transformation list option \<Rightarrow>
   file_manager \<Rightarrow> df_arg \<Rightarrow> (error + dataset) \<times> file_manager \<times> df_arg" where
  "create_view X path underscore_dataset_name schema_path desc rels
       parsed_columns gb parsed_transformations fm df =
     (case those (map (make_Relation X) (case rels of None \<Rightarrow> [] | Some l \<Rightarrow> l)) of
        None \<Rightarrow> (Inl InvalidConfigError, fm, df)
      | Some relation \<Rightarrow>
          (let s = \<lparr>name = underscore_dataset_name, description = None,
                    columns = parsed_columns, source = None, relations = Some relation,
                    group_by = gb, transformations = parsed_transformations, view = True\<rparr>
           in case validate s of
                Some e \<Rightarrow> (Inl e, fm, df)
              | None \<Rightarrow> create_finish X path schema_path desc s fm df))"

text \<open>
  Lines 186 to 193: the branch \<^verbatim>\<open>source.get("table")\<close>. When the test is false no branch
  has bound \<^verbatim>\<open>schema\<close>, and line 195 raises \<^verbatim>\<open>UnboundLocalError\<close>. With \<^verbatim>\<open>source\<close> being
  \<^verbatim>\<open>None\<close> the call of \<^verbatim>\<open>get\<close> would raise \<^verbatim>\<open>AttributeError\<close>; line 152 keeps that case out.
\<close>

definition create_source ::
  "collaborators \<Rightarrow> string \<Rightarrow> string \<Rightarrow> string \<Rightarrow> string option \<Rightarrow> pydict option \<Rightarrow>
   Column list option \<Rightarrow> string list option \<Rightarrow> Transformation list option \<Rightarrow>
   file_manager \<Rightarrow> df_arg \<Rightarrow> (error + dataset) \<times> file_manager \<times> df_arg" where
  "create_source X path underscore_dataset_name schema_path desc src
       parsed_columns gb parsed_transformations fm df =
     (case src of
        None \<Rightarrow> (Inl AttributeError, fm, df)
      | Some sd \<Rightarrow>
          if truthy (dict_get sd ''table'') then
            (case make_Source X sd of
               None \<Rightarrow> (Inl InvalidConfigError, fm, df)
             | Some so \<Rightarrow>
                 (let s = \<lparr>name = underscore_dataset_name, description = None,
                           columns = parsed_columns, source = Some so, relations = None,
                           group_by = gb, transformations = parsed_transformations,
                           view = False\<rparr>
                  in case validate s of
                       Some e \<Rightarrow> (Inl e, fm, df)
                     | None \<Rightarrow> create_finish X path schema_path desc s fm df))
          else (Inl UnboundLocalError, fm, df))"

text \<open>
  \<^verbatim>\<open>create\<close>, lines 135 to 203. The result is what the call returns or raises, the
  storage after the call, and the caller's \<^verbatim>\<open>df\<close> object after the call.
\<close>

definition create ::
  "collaborators \<Rightarrow> string \<Rightarrow> df_arg \<Rightarrow> string option \<Rightarrow> pydict list option \<Rightarrow>
   pydict option \<Rightarrow> pydict list option \<Rightarrow> bool \<Rightarrow> string list option \<Rightarrow>
   pydict list option \<Rightarrow> file_manager \<Rightarrow> (error + dataset) \<times> file_manager \<times> df_arg" where
  "create X path df desc cols src rels vw gb trs fm =
     (if df = DfOther then (Inl ValueError_NotDataFrame, fm, df)
      else case get_validated_dataset_path path of
        None \<Rightarrow> (Inl InvalidPathError, fm, df)
      | Some (org_name, dataset_name) \<Rightarrow>
          (let underscore_dataset_name = transform_dash_to_underscore dataset_name;
               dataset_directory = os_path_join org_name dataset_name;
               schema_path = os_path_join dataset_directory ''schema.yaml'';
               parquet_file_path = os_path_join dataset_directory ''data.parquet''
           in if fm_exists fm dataset_directory \<and> fm_exists fm schema_path
              then (Inl DatasetAlreadyExists, fm, df)
              else
                (let fm1 = fm_mkdir fm dataset_directory
                 in if df = DfNone \<and> src = None \<and> \<not> vw
                    then (Inl InvalidConfigError, fm1, df)
                    else
                      (case parse_all (make_Transformation X) trs of
                         Inl e \<Rightarrow> (Inl e, fm1, df)
                       | Inr parsed_transformations \<Rightarrow>
                           (case parse_all (make_Column X) cols of
                              Inl e \<Rightarrow> (Inl e, fm1, df)
                            | Inr parsed_columns \<Rightarrow>
                                (case df of
                                   DfFrame d \<Rightarrow>
                                     create_from_df X path underscore_dataset_name schema_path
                                       parquet_file_path d desc parsed_columns gb
                                       parsed_transformations fm1
                                 | _ \<Rightarrow>
                                     if vw then
                                       create_view X path underscore_dataset_name schema_path
                                         desc rels parsed_columns gb parsed_transformations
                                         fm1 df
                                     else
                                       create_source X path underscore_dataset_name
                                         schema_path desc src parsed_columns gb
                                         parsed_transformations fm1 df))))))"

section \<open>load\<close>

text \<open>\<^verbatim>\<open>load\<close>, lines 254 to 286. It reads the storage and leaves it as it is.\<close>

definition load :: "collaborators \<Rightarrow> string \<Rightarrow> file_manager \<Rightarrow> error + dataset" where
  "load X dataset_path fm =
     (case get_validated_dataset_path dataset_path of
        None \<Rightarrow> Inl InvalidPathError
      | Some _ \<Rightarrow>
          (let dataset_full_path =
                 os_path_join (os_path_join (project_root fm) ''datasets'') dataset_path;
               local_dataset_exists = os_path_exists fm dataset_full_path
           in if \<not> local_dataset_exists then Inl DatasetNotFound
              else create_loader_from_path X dataset_path fm))"

section \<open>Reference collaborators\<close>

text \<open>
  One concrete choice of the collaborators, used to run the model on examples. A string
  field of a dictionary is read with \<open>get_str\<close>.
\<close>

definition get_str :: "pydict \<Rightarrow> string \<Rightarrow> string option" where
  "get_str d k = (case map_of d k of Some (PyStr s) \<Rightarrow> Some s | _ \<Rightarrow> None)"

text \<open>
  Modelled from the spec: \<^verbatim>\<open>Column(**d)\<close>. Section 3: a column has a name and a type and may
  have a description, an expression and an alias.
\<close>

definition ref_make_Column :: "pydict \<Rightarrow> Column option" where
  "ref_make_Column d =
     (case (get_str d ''name'', get_str d ''type'') of
        (Some n, Some t) \<Rightarrow>
          Some \<lparr>col_name = n, col_type = t, col_description = get_str d ''description'',
                col_expression = get_str d ''expression'', col_alias = get_str d ''alias''\<rparr>
      | _ \<Rightarrow> None)"

text \<open>
  Modelled from the spec: \<^verbatim>\<open>Transformation(**d)\<close>. Section 3: a transformation has a type
  and a parameter mapping; section 4.2, check 5: any type is accepted, a malformed shape
  fails.
\<close>

definition ref_make_Transformation :: "pydict \<Rightarrow> Transformation option" where
  "ref_make_Transformation d =
     (case (map_of d ''type'', map_of d ''params'') of
        (Some (PyStr t), Some (PyDict p)) \<Rightarrow> Some \<lparr>tr_type = t, tr_params = p\<rparr>
      | _ \<Rightarrow> None)"

text \<open>
  Modelled from the spec: \<^verbatim>\<open>Relation(**d)\<close>. Section 3: a relation has a type, a source and
  a target.
\<close>

definition ref_make_Relation :: "pydict \<Rightarrow> Relation option" where
  "ref_make_Relation d =
     (case (get_str d ''type'', get_str d ''source'', get_str d ''target'') of
        (Some t, Some a, Some b) \<Rightarrow> Some \<lparr>rel_type = t, rel_source = a, rel_target = b\<rparr>
      | _ \<Rightarrow> None)"

text \<open>
  Modelled from the spec: \<^verbatim>\<open>Source(**d)\<close>. Section 3: a source has a type and may name a
  table.
\<close>

definition ref_make_Source :: "pydict \<Rightarrow> Source option" where
  "ref_make_Source d =
     (case get_str d ''type'' of
        Some t \<Rightarrow> Some \<lparr>src_type = t, src_table = get_str d ''table''\<rparr>
      | None \<Rightarrow> None)"

text \<open>
  Modelled from the spec: section 4.3, step 6, calls the sanitization lowercasing and
  character normalization. Here an upper-case letter becomes its lower-case letter and
  any other character outside \<^verbatim>\<open>[a-z0-9_]\<close> becomes an underscore.
\<close>

definition ref_sanitize_char :: "char \<Rightarrow> char" where
  "ref_sanitize_char c =
     (case map_of (zip ''ABCDEFGHIJKLMNOPQRSTUVWXYZ'' ''abcdefghijklmnopqrstuvwxyz'') c of
        Some l \<Rightarrow> l
      | None \<Rightarrow> if lower_alnum c \<or> c = CHR ''_'' then c else CHR ''_'')"

text \<open>Modelled from the spec: \<^verbatim>\<open>sanitize_sql_table_name\<close>, character by character.\<close>

definition ref_sanitize_sql_table_name :: "string \<Rightarrow> string" where
  "ref_sanitize_sql_table_name s = map ref_sanitize_char s"

text \<open>
  Modelled from the spec: section 8 names \<^verbatim>\<open>fill_na\<close>, which puts a value in the place
  of every missing cell of one column. Any other transformation type is left
  uninterpreted.
\<close>

definition fill_na :: "string \<Rightarrow> pyval \<Rightarrow> table \<Rightarrow> table" where
  "fill_na c v t =
     map (\<lambda>(label, cells).
            if label = c then (label, map (\<lambda>x. if x = PyNone then v else x) cells)
            else (label, cells)) t"

text \<open>
  Modelled from the spec: the interpretation of one transformation, \<^verbatim>\<open>fill_na\<close> with its
  parameters \<^verbatim>\<open>column\<close> and \<^verbatim>\<open>value\<close> and nothing else.
\<close>

definition ref_apply_transformation :: "Transformation \<Rightarrow> table \<Rightarrow> table" where
  "ref_apply_transformation tr t =
     (if tr_type tr = ''fill_na'' then
        (case map_of (tr_params tr) ''column'' of
           Some (PyStr c) \<Rightarrow> fill_na c (dict_get (tr_params tr) ''value'') t
         | _ \<Rightarrow> t)
      else t)"

text \<open>The reference collaborators together.\<close>

definition ref_collaborators :: collaborators where
  "ref_collaborators =
     \<lparr>make_Column = ref_make_Column,
      make_Transformation = ref_make_Transformation,
      make_Relation = ref_make_Relation,
      make_Source = ref_make_Source,
      sanitize_sql_table_name = ref_sanitize_sql_table_name,
      apply_transformation = ref_apply_transformation\<rparr>"

text \<open>An empty storage under the project root \<^verbatim>\<open>/proj\<close>, and a three-row table.\<close>

definition empty_fm :: file_manager where
  "empty_fm = \<lparr>project_root = ''/proj'', dirs = {}, files = Map.empty\<rparr>"

definition sales_schema :: SemanticLayerSchema where
  "sales_schema =
     \<lparr>name = ''sales'', description = None,
      columns = Some [\<lparr>col_name = ''category'', col_type = ''string'', col_description = None,
                       col_expression = None, col_alias = None\<rparr>,
                      \<lparr>col_name = ''amount'', col_type = ''float'', col_description = None,
                       col_expression = None, col_alias = None\<rparr>],
      source = None, relations = None, group_by = None, transformations = None,
      view = False\<rparr>"

definition sales_df :: DataFrame where
  "sales_df =
     \<lparr>schema = sales_schema,
      data = [(''category'', [PyStr ''a'', PyStr ''b'', PyStr ''a'']),
              (''amount'', [PyInt 1, PyNone, PyInt 3])]\<rparr>"

text \<open>
  The column overrides of the example of section 8, a source configuration and a relation.
\<close>

definition agg_columns :: "pydict list" where
  "agg_columns =
     [ [(''name'', PyStr ''category''), (''type'', PyStr ''string'')],
      [(''name'', PyStr ''amount''), (''type'', PyStr ''float''),
       (''expression'', PyStr ''sum(amount)'')] ]"

definition agg_parsed :: "Column list" where
  "agg_parsed =
     [\<lparr>col_name = ''category'', col_type = ''string'', col_description = None,
       col_expression = None, col_alias = None\<rparr>,
      \<lparr>col_name = ''amount'', col_type = ''float'', col_description = None,
       col_expression = Some ''sum(amount)'', col_alias = None\<rparr>]"

definition orders_source :: pydict where
  "orders_source = [(''type'', PyStr ''mysql''), (''table'', PyStr ''orders'')]"

definition orders_relation :: pydict where
  "orders_relation =
     [(''type'', PyStr ''one-to-many''), (''source'', PyStr ''customers.id''),
      (''target'', PyStr ''orders.customer_id'')]"

definition joined_schema :: SemanticLayerSchema where
  "joined_schema =
     \<lparr>name = ''joined'', description = None, columns = None, source = None,
      relations = Some [\<lparr>rel_type = ''one-to-many'', rel_source = ''customers.id'',
                         rel_target = ''orders.customer_id''\<rparr>],
      group_by = None, transformations = None, view = True\<rparr>"

definition typed_source :: pydict where
  "typed_source = [(''type'', PyStr ''mysql'')]"

text \<open>A column override that changes a type, and a transformation that fills a missing cell.\<close>

definition retyped_columns :: "pydict list" where
  "retyped_columns =
     [ [(''name'', PyStr ''category''), (''type'', PyStr ''string'')],
      [(''name'', PyStr ''amount''), (''type'', PyStr ''integer'')] ]"

definition fill_amount :: "pydict list" where
  "fill_amount =
     [ [(''type'', PyStr ''fill_na''),
       (''params'', PyDict [(''column'', PyStr ''amount''), (''value'', PyInt 0)])] ]"

text \<open>A schema with two plain columns and an aggregated one, and its first column.\<close>

definition regional_schema :: SemanticLayerSchema where
  "regional_schema =
     \<lparr>name = ''sales'', description = None,
      columns = Some [\<lparr>col_name = ''category'', col_type = ''string'', col_description = None,
                       col_expression = None, col_alias = None\<rparr>,
                      \<lparr>col_name = ''region'', col_type = ''string'', col_description = None,
                       col_expression = None, col_alias = None\<rparr>,
                      \<lparr>col_name = ''amount'', col_type = ''float'', col_description = None,
                       col_expression = Some ''sum(amount)'', col_alias = None\<rparr>],
      source = None, relations = None, group_by = None, transformations = None,
      view = False\<rparr>"

definition category_column :: Column where
  "category_column =
     \<lparr>col_name = ''category'', col_type = ''string'', col_description = None,
      col_expression = None, col_alias = None\<rparr>"

text \<open>The override of \<open>retyped_columns\<close> as columns.\<close>

definition retyped_parsed :: "Column list" where
  "retyped_parsed =
     [\<lparr>col_name = ''category'', col_type = ''string'', col_description = None,
       col_expression = None, col_alias = None\<rparr>,
      \<lparr>col_name = ''amount'', col_type = ''integer'', col_description = None,
       col_expression = None, col_alias = None\<rparr>]"

text \<open>The three-row table with a schema that carries a source.\<close>

definition sourced_df :: DataFrame where
  "sourced_df =
     sales_df\<lparr>schema := sales_schema\<lparr>source := Some \<lparr>src_type = ''parquet'', src_table = None\<rparr>\<rparr>\<rparr>"

text \<open>
  The reference collaborators with a sanitizer that also cuts the name to six characters,
  which tells a sanitized name from a stored one.
\<close>

definition short_collaborators :: collaborators where
  "short_collaborators =
     ref_collaborators\<lparr>sanitize_sql_table_name := (\<lambda>n. take 6 (ref_sanitize_sql_table_name n))\<rparr>"

section \<open>Locations of the artifacts\<close>

text \<open>
  Lines 140 to 143 of \<^verbatim>\<open>create\<close>: the dataset directory and the two artifact paths,
  relative to the storage root.
\<close>

definition directory_of :: "string \<Rightarrow> string \<Rightarrow> string" where
  "directory_of org ds = os_path_join org ds"

definition descriptor_of :: "string \<Rightarrow> string \<Rightarrow> string" where
  "descriptor_of org ds = os_path_join (os_path_join org ds) ''schema.yaml''"

definition payload_of :: "string \<Rightarrow> string \<Rightarrow> string" where
  "payload_of org ds = os_path_join (os_path_join org ds) ''data.parquet''"

section \<open>Column names and types\<close>

text \<open>
  The column names and types of a dataset are those of its schema (section 4.4: they are
  authoritative from the schema, not re-inferred from the file).
\<close>

definition column_signature :: "SemanticLayerSchema \<Rightarrow> (string \<times> string) list" where
  "column_signature s = map (\<lambda>c. (col_name c, col_type c)) (the_columns s)"

section \<open>The schemas the spec describes\<close>

text \<open>
  Section 4.3, step 3, in the spec's words, to be compared with what \<^verbatim>\<open>create\<close> does.
  Materialized: the schema is derived from the payload's own schema; the name and the
  transformations are overridden, the columns and \<^verbatim>\<open>group_by\<close> only if supplied.
\<close>

definition overridden_schema ::
  "DataFrame \<Rightarrow> string \<Rightarrow> Transformation list option \<Rightarrow> Column list option \<Rightarrow>
   string list option \<Rightarrow> SemanticLayerSchema" where
  "overridden_schema d u pts pcs gb =
     (schema d)\<lparr>name := u,
                transformations := pts,
                columns := (case pcs of
                              None \<Rightarrow> columns (schema d)
                            | Some l \<Rightarrow> if l \<noteq> [] then Some l else columns (schema d)),
                group_by := (case gb of None \<Rightarrow> group_by (schema d) | Some g \<Rightarrow> Some g)\<rparr>"

text \<open>Source-backed: a schema carrying the source configuration.\<close>

definition source_schema ::
  "string \<Rightarrow> Source \<Rightarrow> Column list option \<Rightarrow> string list option \<Rightarrow>
   Transformation list option \<Rightarrow> SemanticLayerSchema" where
  "source_schema u so pcs gb pts =
     \<lparr>name = u, description = None, columns = pcs, source = Some so, relations = None,
      group_by = gb, transformations = pts, view = False\<rparr>"

text \<open>
  View: a schema with the view flag and the relations built from the supplied relation
  dictionaries.
\<close>

definition view_schema ::
  "string \<Rightarrow> Relation list \<Rightarrow> Column list option \<Rightarrow> string list option \<Rightarrow>
   Transformation list option \<Rightarrow> SemanticLayerSchema" where
  "view_schema u relation pcs gb pts =
     \<lparr>name = u, description = None, columns = pcs, source = None, relations = Some relation,
      group_by = gb, transformations = pts, view = True\<rparr>"

text \<open>Line 195: the description override, \<^verbatim>\<open>description or schema.description\<close>.\<close>

definition with_description :: "string option \<Rightarrow> SemanticLayerSchema \<Rightarrow> SemanticLayerSchema" where
  "with_description desc s = s\<lparr>description := py_or desc (description s)\<rparr>"

text \<open>Line 201: the name of the schema is replaced by its sanitized form.\<close>

definition with_sanitized_name :: "collaborators \<Rightarrow> SemanticLayerSchema \<Rightarrow> SemanticLayerSchema" where
  "with_sanitized_name X s = s\<lparr>name := sanitize_sql_table_name X (name s)\<rparr>"

section \<open>Paths\<close>

lemma split_on_ne: "split_on c s \<noteq> []"
  by (induction s) (auto split: list.splits)

lemma split_on_single: "split_on c s = [a] \<Longrightarrow> s = a \<and> c \<notin> set a"
  by (induction s arbitrary: a) (auto split: list.splits if_splits simp: split_on_ne)

lemma split_on_two: "split_on c s = [a, b] \<Longrightarrow> s = a @ c # b"
  by (induction s arbitrary: a b) (auto split: list.splits if_splits dest: split_on_single)

lemma lower_alnum_not_slash: "lower_alnum c \<Longrightarrow> c \<noteq> CHR ''/''"
  by (auto simp: lower_alnum_def)

lemma valid_segment_no_slash: "valid_segment s \<Longrightarrow> CHR ''/'' \<notin> set s"
  by (cases s) (auto simp: valid_segment_def list_all_iff dest: lower_alnum_not_slash)

lemma valid_segment_ne: "valid_segment s \<Longrightarrow> s \<noteq> []"
  by (auto simp: valid_segment_def)

lemma valid_segment_hd: "valid_segment s \<Longrightarrow> hd s \<noteq> CHR ''/''"
  using valid_segment_no_slash [of s] valid_segment_ne [of s] by (cases s) auto

lemma valid_segment_last: "valid_segment s \<Longrightarrow> last s \<noteq> CHR ''/''"
  using valid_segment_no_slash [of s] valid_segment_ne [of s] last_in_set [of s] by metis

lemma validated_path_shape:
  assumes "get_validated_dataset_path path = Some (org, ds)"
  shows "path = org @ ''/'' @ ds \<and> valid_segment org \<and> valid_segment ds"
proof -
  from assms obtain a b where ab: "split_on (CHR ''/'') path = [a, b]"
    and v: "valid_segment a \<and> valid_segment b" and e: "a = org \<and> b = ds"
    by (auto simp: get_validated_dataset_path_def split: list.splits if_splits)
  from split_on_two [OF ab] v e show ?thesis by simp
qed

lemma join_segments:
  "valid_segment org \<Longrightarrow> valid_segment ds \<Longrightarrow> os_path_join org ds = org @ ''/'' @ ds"
  by (simp add: os_path_join_def valid_segment_ne valid_segment_hd valid_segment_last)

lemma join_dir_file:
  assumes "valid_segment org" "valid_segment ds" "f \<noteq> []" "hd f \<noteq> CHR ''/''"
  shows "os_path_join (org @ ''/'' @ ds) f = org @ ''/'' @ ds @ ''/'' @ f"
  using assms by (simp add: os_path_join_def valid_segment_ne valid_segment_last)

lemma storage_root_last: "storage_root fm \<noteq> [] \<and> last (storage_root fm) \<noteq> CHR ''/''"
  by (simp add: storage_root_def os_path_join_def)

lemma abs_path_relative:
  "p = [] \<or> hd p \<noteq> CHR ''/'' \<Longrightarrow> fm_abs_path fm p = storage_root fm @ ''/'' @ p"
  using storage_root_last [of fm]
  by (auto simp: fm_abs_path_def os_path_join_def [of "storage_root fm"])

section \<open>Validation and parsing\<close>

lemma validate_cases: "validate s = None \<or> validate s = Some InvalidConfigError"
  by (simp add: validate_def)

lemma validate_description [simp]: "validate (s\<lparr>description := x\<rparr>) = validate s"
  by (simp add: validate_def check_name_def check_columns_def check_aggregation_def
      check_kind_def kind_indicators_def the_columns_def the_group_by_def plain_names_def)

lemma kind_of_name [simp]: "kind_of (s\<lparr>name := x\<rparr>) = kind_of s"
  by (simp add: kind_of_def kind_indicators_def)

lemma kind_of_description [simp]: "kind_of (s\<lparr>description := x\<rparr>) = kind_of s"
  by (simp add: kind_of_def kind_indicators_def)

lemma parse_all_error: "parse_all mk xs = Inl e \<Longrightarrow> e = InvalidConfigError"
  by (auto simp: parse_all_def split: option.splits if_splits)

lemma check_name_underscore:
  assumes "valid_segment ds"
  shows "check_name (s\<lparr>name := transform_dash_to_underscore ds\<rparr>)"
  using assms
  by (cases ds) (auto simp: check_name_def valid_segment_def transform_dash_to_underscore_def
      list_all_iff)

section \<open>The outcomes of create\<close>

lemma create_finish_shape:
  assumes "create_finish X path sp desc s fm df = (r, fm', df')"
  shows "fm' = fm_write fm sp (Descriptor (s\<lparr>description := py_or desc (description s)\<rparr>))
    \<and> r = loader_load X (s\<lparr>description := py_or desc (description s),
                            name := sanitize_sql_table_name X (name s)\<rparr>) path fm'
    \<and> df' = alias_schema df (s\<lparr>description := py_or desc (description s),
                            name := sanitize_sql_table_name X (name s)\<rparr>)"
  using assms by (auto simp: create_finish_def Let_def)

lemma create_from_df_outcome:
  assumes "create_from_df X path u sp pq d desc pcs gb pts fm = (r, fm', df')"
  shows "(r = Inl InvalidConfigError \<and> fm' = fm)
    \<or> (\<exists>s. validate s = None \<and> name s = u \<and> kind_of s = kind_of (schema d)
          \<and> fm' = fm_write (to_parquet d (fm_abs_path fm pq) fm) sp (Descriptor s)
          \<and> r = loader_load X (s\<lparr>name := sanitize_sql_table_name X (name s)\<rparr>) path fm'
          \<and> df' = DfFrame (d\<lparr>schema := s\<lparr>name := sanitize_sql_table_name X (name s)\<rparr>\<rparr>))"
proof -
  define s4 where "s4 =
    (case gb of None \<Rightarrow> (\<lambda>x. x) | Some g \<Rightarrow> (\<lambda>x. x\<lparr>group_by := Some g\<rparr>))
      ((case pcs of None \<Rightarrow> (\<lambda>x. x) | Some l \<Rightarrow> if l \<noteq> [] then (\<lambda>x. x\<lparr>columns := Some l\<rparr>) else (\<lambda>x. x))
         ((schema d)\<lparr>name := u, transformations := pts\<rparr>))"
  have k: "kind_of s4 = kind_of (schema d)" and n: "name s4 = u"
    by (auto simp: s4_def kind_of_def kind_indicators_def split: option.splits)
  have unfold: "create_from_df X path u sp pq d desc pcs gb pts fm =
    (case validate s4 of
       Some e \<Rightarrow> (Inl e, fm, DfFrame (d\<lparr>schema := s4\<rparr>))
     | None \<Rightarrow> create_finish X path sp desc s4 (to_parquet d (fm_abs_path fm pq) fm)
                 (DfFrame (d\<lparr>schema := s4\<rparr>)))"
    by (simp add: create_from_df_def Let_def s4_def split: option.splits)
  show ?thesis
  proof (cases "validate s4")
    case None
    with assms unfold have "create_finish X path sp desc s4 (to_parquet d (fm_abs_path fm pq) fm)
                 (DfFrame (d\<lparr>schema := s4\<rparr>)) = (r, fm', df')" by simp
    from create_finish_shape [OF this] None k n show ?thesis
      by (intro disjI2 exI [of _ "s4\<lparr>description := py_or desc (description s4)\<rparr>"])
        (simp add: alias_schema_def)
  next
    case (Some e)
    with validate_cases [of s4] have "e = InvalidConfigError" by simp
    with assms unfold Some show ?thesis by simp
  qed
qed

lemma create_view_outcome:
  assumes "create_view X path u sp desc rels pcs gb pts fm df = (r, fm', df')"
  shows "(r = Inl InvalidConfigError \<and> fm' = fm)
    \<or> (\<exists>s. validate s = None \<and> name s = u \<and> kind_of s \<noteq> Materialized
          \<and> fm' = fm_write fm sp (Descriptor s)
          \<and> r = loader_load X (s\<lparr>name := sanitize_sql_table_name X (name s)\<rparr>) path fm'
          \<and> df' = alias_schema df (s\<lparr>name := sanitize_sql_table_name X (name s)\<rparr>))"
proof (cases "those (map (make_Relation X) (case rels of None \<Rightarrow> [] | Some l \<Rightarrow> l))")
  case None
  with assms show ?thesis by (simp add: create_view_def)
next
  case (Some relation)
  define s where "s = \<lparr>name = u, description = None, columns = pcs, source = None,
     relations = Some relation, group_by = gb, transformations = pts, view = True\<rparr>"
  have k: "kind_of s \<noteq> Materialized" and n: "name s = u"
    by (simp_all add: s_def kind_of_def kind_indicators_def)
  show ?thesis
  proof (cases "validate s")
    case None
    with assms Some have "create_finish X path sp desc s fm df = (r, fm', df')"
      by (simp add: create_view_def s_def)
    from create_finish_shape [OF this] None k n show ?thesis
      by (intro disjI2 exI [of _ "s\<lparr>description := py_or desc (description s)\<rparr>"]) simp
  next
    case (Some e)
    with validate_cases [of s] have "e = InvalidConfigError" by simp
    with assms \<open>those _ = Some relation\<close> Some show ?thesis
      by (simp add: create_view_def s_def)
  qed
qed

lemma create_source_outcome:
  assumes "create_source X path u sp desc src pcs gb pts fm df = (r, fm', df')"
  shows "(\<exists>e. r = Inl e \<and> (e = InvalidConfigError \<or> e = UnboundLocalError \<or> e = AttributeError)
            \<and> fm' = fm)
    \<or> (\<exists>s. validate s = None \<and> name s = u \<and> kind_of s \<noteq> Materialized
          \<and> fm' = fm_write fm sp (Descriptor s)
          \<and> r = loader_load X (s\<lparr>name := sanitize_sql_table_name X (name s)\<rparr>) path fm'
          \<and> df' = alias_schema df (s\<lparr>name := sanitize_sql_table_name X (name s)\<rparr>))"
proof (cases "\<exists>sd so. src = Some sd \<and> truthy (dict_get sd ''table'') \<and> make_Source X sd = Some so")
  case False
  with assms show ?thesis
    by (auto simp: create_source_def split: option.splits if_splits)
next
  case True
  then obtain sd so where sd: "src = Some sd" "truthy (dict_get sd ''table'')"
    "make_Source X sd = Some so" by blast
  define s where "s = \<lparr>name = u, description = None, columns = pcs, source = Some so,
     relations = None, group_by = gb, transformations = pts, view = False\<rparr>"
  have k: "kind_of s \<noteq> Materialized" and n: "name s = u"
    by (simp_all add: s_def kind_of_def kind_indicators_def)
  show ?thesis
  proof (cases "validate s")
    case None
    with assms sd have "create_finish X path sp desc s fm df = (r, fm', df')"
      by (simp add: create_source_def s_def)
    from create_finish_shape [OF this] None k n show ?thesis
      by (intro disjI2 exI [of _ "s\<lparr>description := py_or desc (description s)\<rparr>"]) simp
  next
    case (Some e)
    with validate_cases [of s] have "e = InvalidConfigError" by simp
    with assms sd Some show ?thesis
      by (auto simp: create_source_def s_def)
  qed
qed

lemma create_outcome:
  assumes p: "get_validated_dataset_path path = Some (org, ds)"
    and c: "create X path df desc cols src rels vw gb trs fm = (r, fm', df')"
  shows "(\<exists>e. r = Inl e \<and>
            ((e = ValueError_NotDataFrame \<or>
              e = DatasetAlreadyExists \<and> fm_exists fm (os_path_join org ds) \<and>
                fm_exists fm (os_path_join (os_path_join org ds) ''schema.yaml''))
             \<and> fm' = fm
             \<or> (e = InvalidConfigError \<or> e = UnboundLocalError \<or> e = AttributeError)
               \<and> fm' = fm_mkdir fm (os_path_join org ds)))
    \<or> (\<exists>s fm0. validate s = None \<and> name s = transform_dash_to_underscore ds
          \<and> (df = DfNone \<and> kind_of s \<noteq> Materialized \<and> fm0 = fm_mkdir fm (os_path_join org ds)
              \<or> (\<exists>d. df = DfFrame d \<and> kind_of s = kind_of (schema d) \<and>
                   fm0 = to_parquet d
                          (fm_abs_path fm (os_path_join (os_path_join org ds) ''data.parquet''))
                          (fm_mkdir fm (os_path_join org ds))))
          \<and> fm' = fm_write fm0 (os_path_join (os_path_join org ds) ''schema.yaml'') (Descriptor s)
          \<and> r = loader_load X (s\<lparr>name := sanitize_sql_table_name X (name s)\<rparr>) path fm'
          \<and> df' = alias_schema df (s\<lparr>name := sanitize_sql_table_name X (name s)\<rparr>))"
proof -
  define dir where "dir = os_path_join org ds"
  define sp where "sp = os_path_join dir ''schema.yaml''"
  define pq where "pq = os_path_join dir ''data.parquet''"
  define u where "u = transform_dash_to_underscore ds"
  define fm1 where "fm1 = fm_mkdir fm dir"
  have abs1: "fm_abs_path fm1 q = fm_abs_path fm q" for q
    by (simp add: fm1_def fm_mkdir_def fm_abs_path_def storage_root_def)
  note defs = dir_def sp_def pq_def u_def fm1_def
  show ?thesis
  proof (cases "df = DfOther \<or> (fm_exists fm dir \<and> fm_exists fm sp)")
    case True
    with p c show ?thesis
      by (auto simp: create_def Let_def defs split: if_splits)
  next
    case False
    then have ok: "df \<noteq> DfOther" and fresh: "(fm_exists fm dir \<and> fm_exists fm sp) = False"
      by simp_all
    have step1: "create X path df desc cols src rels vw gb trs fm =
      (if df = DfNone \<and> src = None \<and> \<not> vw then (Inl InvalidConfigError, fm1, df)
       else case parse_all (make_Transformation X) trs of
              Inl e \<Rightarrow> (Inl e, fm1, df)
            | Inr pts \<Rightarrow>
               (case parse_all (make_Column X) cols of
                  Inl e \<Rightarrow> (Inl e, fm1, df)
                | Inr pcs \<Rightarrow>
                   (case df of
                      DfFrame d \<Rightarrow> create_from_df X path u sp pq d desc pcs gb pts fm1
                    | _ \<Rightarrow> if vw then create_view X path u sp desc rels pcs gb pts fm1 df
                           else create_source X path u sp desc src pcs gb pts fm1 df)))"
      unfolding create_def Let_def defs by (simp add: p ok fresh [unfolded defs])
    from c have c': "(r, fm', df') = create X path df desc cols src rels vw gb trs fm"
      by simp
    show ?thesis
    proof (cases "df = DfNone \<and> src = None \<and> \<not> vw")
      case True
      then have "(r, fm', df') = (Inl InvalidConfigError, fm1, df)"
        unfolding c' step1 by simp
      then show ?thesis by (auto simp: defs)
    next
      case some: False
      then have some': "(df = DfNone \<and> src = None \<and> \<not> vw) = False" by simp
      show ?thesis
      proof (cases "parse_all (make_Transformation X) trs")
        case (Inl e)
        then have "(r, fm', df') = (Inl e, fm1, df)"
          unfolding c' step1 by (simp add: some')
        with parse_all_error [OF Inl] show ?thesis by (auto simp: defs)
      next
        case pts: (Inr pts)
        show ?thesis
        proof (cases "parse_all (make_Column X) cols")
          case (Inl e)
          then have "(r, fm', df') = (Inl e, fm1, df)"
            unfolding c' step1 by (simp add: some' pts)
          with parse_all_error [OF Inl] show ?thesis by (auto simp: defs)
        next
          case pcs: (Inr pcs)
          show ?thesis
          proof (cases df)
            case DfOther
            with ok show ?thesis by simp
          next
            case (DfFrame d)
            have "create_from_df X path u sp pq d desc pcs gb pts fm1 = (r, fm', df')"
              unfolding c' step1 by (simp add: pts pcs DfFrame)
            from create_from_df_outcome [OF this] DfFrame show ?thesis
              unfolding abs1 by (auto simp: defs alias_schema_def)
          next
            case DfNone
            show ?thesis
            proof (cases vw)
              case True
              have "create_view X path u sp desc rels pcs gb pts fm1 df = (r, fm', df')"
                unfolding c' step1 by (simp add: pts pcs DfNone True)
              from create_view_outcome [OF this] DfNone show ?thesis
                by (auto simp: defs)
            next
              case False
              from some DfNone False have "src \<noteq> None" by simp
              then have "create_source X path u sp desc src pcs gb pts fm1 df = (r, fm', df')"
                unfolding c' step1 by (auto simp: pts pcs DfNone False)
              from create_source_outcome [OF this] DfNone show ?thesis
                by (auto simp: defs)
            qed
          qed
        qed
      qed
    qed
  qed
qed

section \<open>Storage after create\<close>

lemma loader_load_error: "loader_load X s p fm = Inl e \<Longrightarrow> e = IOError"
  by (auto simp: loader_load_def split: if_splits option.splits content.splits)

lemma exists_after_write:
  assumes "fm' = fm_write fm0 sp c"
    and "fm0 = fm_mkdir fm dir \<or> fm0 = to_parquet d q (fm_mkdir fm dir)"
  shows "fm_exists fm' dir \<and> fm_exists fm' sp"
  using assms
  by (auto simp: fm_exists_def os_path_exists_def fm_write_def fm_mkdir_def to_parquet_def
      fm_abs_path_def storage_root_def)

lemma path_is_directory:
  assumes "get_validated_dataset_path path = Some (org, ds)"
  shows "os_path_join org ds = path"
  using validated_path_shape [OF assms] by (simp add: join_segments)

lemma artifact_paths:
  assumes "get_validated_dataset_path path = Some (org, ds)"
  shows "fm_abs_path fm (directory_of org ds) = storage_root fm @ ''/'' @ path"
    and "fm_abs_path fm (descriptor_of org ds) = storage_root fm @ ''/'' @ path @ ''/schema.yaml''"
    and "fm_abs_path fm (payload_of org ds) = storage_root fm @ ''/'' @ path @ ''/data.parquet''"
proof -
  from validated_path_shape [OF assms] have v: "valid_segment org" "valid_segment ds"
    and e: "path = org @ ''/'' @ ds" by simp_all
  have h: "hd (org @ x) \<noteq> CHR ''/''" for x
    using valid_segment_hd [OF v(1)] valid_segment_ne [OF v(1)] by simp
  have j1: "os_path_join org ds = org @ ''/'' @ ds"
    by (rule join_segments [OF v])
  have j2: "os_path_join (os_path_join org ds) ''schema.yaml'' = org @ ''/'' @ ds @ ''/schema.yaml''"
    unfolding j1 using join_dir_file [OF v, of "''schema.yaml''"] by simp
  have j3: "os_path_join (os_path_join org ds) ''data.parquet'' = org @ ''/'' @ ds @ ''/data.parquet''"
    unfolding j1 using join_dir_file [OF v, of "''data.parquet''"] by simp
  have a: "fm_abs_path fm (org @ x) = storage_root fm @ ''/'' @ org @ x" for x
    by (rule abs_path_relative) (simp add: h)
  show "fm_abs_path fm (directory_of org ds) = storage_root fm @ ''/'' @ path"
    unfolding directory_of_def j1 a e by simp
  show "fm_abs_path fm (descriptor_of org ds) = storage_root fm @ ''/'' @ path @ ''/schema.yaml''"
    unfolding descriptor_of_def j2 a e by simp
  show "fm_abs_path fm (payload_of org ds) = storage_root fm @ ''/'' @ path @ ''/data.parquet''"
    unfolding payload_of_def j3 a e by simp
qed

lemma storage_root_const [simp]:
  "storage_root (fm_mkdir fm p) = storage_root fm"
  "storage_root (fm_write fm p c) = storage_root fm"
  "storage_root (to_parquet d q fm) = storage_root fm"
  by (simp_all add: storage_root_def fm_mkdir_def fm_write_def to_parquet_def)

lemma abs_path_const [simp]:
  "fm_abs_path (fm_mkdir fm p) x = fm_abs_path fm x"
  "fm_abs_path (fm_write fm p c) x = fm_abs_path fm x"
  "fm_abs_path (to_parquet d q fm) x = fm_abs_path fm x"
  by (simp_all add: fm_abs_path_def)

lemma abs_path_update [simp]:
  "fm_abs_path (fm\<lparr>files := f\<rparr>) x = fm_abs_path fm x"
  "fm_abs_path (fm\<lparr>dirs := ds\<rparr>) x = fm_abs_path fm x"
  by (simp_all add: fm_abs_path_def storage_root_def)

lemma descriptor_ne_payload:
  assumes "get_validated_dataset_path path = Some (org, ds)"
  shows "fm_abs_path fm (descriptor_of org ds) \<noteq> fm_abs_path fm (payload_of org ds)"
  by (simp add: artifact_paths [OF assms])

lemma payload_path_of_path:
  assumes "get_validated_dataset_path path = Some (org, ds)"
  shows "os_path_join path ''data.parquet'' = payload_of org ds"
    and "os_path_join path ''schema.yaml'' = descriptor_of org ds"
    and "path = directory_of org ds"
  by (simp_all add: payload_of_def descriptor_of_def directory_of_def path_is_directory [OF assms])

lemma written_payload_loads:
  assumes p: "get_validated_dataset_path path = Some (org, ds)"
    and k: "kind_of s = Materialized"
  shows "loader_load X s path
           (fm_write (to_parquet d (fm_abs_path fm0 (payload_of org ds)) fm0) (descriptor_of org ds) c)
         = Inr (ConcreteDataFrame
                 \<lparr>schema = s, data = apply_transformations X (transformations s) (data d)\<rparr>)"
proof -
  let ?fm = "fm_write (to_parquet d (fm_abs_path fm0 (payload_of org ds)) fm0) (descriptor_of org ds) c"
  have "files ?fm (fm_abs_path fm0 (payload_of org ds)) = Some (Parquet (data d))"
    using descriptor_ne_payload [OF p, of fm0] by (simp add: fm_write_def to_parquet_def)
  then show ?thesis
    by (simp add: loader_load_def k payload_path_of_path(1) [OF p])
qed

lemma create_succeeds_or_leaves_files:
  assumes p: "get_validated_dataset_path path = Some (org, ds)"
    and c: "create X path df desc cols src rels vw gb trs fm = (r, fm', df')"
  shows "(\<exists>e. r = Inl e \<and> files fm' = files fm \<and>
             (dirs fm' = dirs fm \<or> dirs fm' = insert (fm_abs_path fm (directory_of org ds)) (dirs fm)))
       \<or> (\<exists>dset s. r = Inr dset \<and> validate s = None \<and>
             files fm' (fm_abs_path fm (descriptor_of org ds)) = Some (Descriptor s) \<and>
             dirs fm' = insert (fm_abs_path fm (directory_of org ds)) (dirs fm))"
proof -
  from create_outcome [OF p c] show ?thesis
  proof (elim disjE exE conjE)
    fix e
    assume "r = Inl e" "fm' = fm"
    then show ?thesis by simp
  next
    fix e
    assume "r = Inl e" "fm' = fm"
    then show ?thesis by simp
  next
    fix e
    assume "r = Inl e" "fm' = fm_mkdir fm (os_path_join org ds)"
    then show ?thesis by (simp add: fm_mkdir_def directory_of_def)
  next
    fix e
    assume "r = Inl e" "fm' = fm_mkdir fm (os_path_join org ds)"
    then show ?thesis by (simp add: fm_mkdir_def directory_of_def)
  next
    fix e
    assume "r = Inl e" "fm' = fm_mkdir fm (os_path_join org ds)"
    then show ?thesis by (simp add: fm_mkdir_def directory_of_def)
  next
    fix s fm0
    assume v: "validate s = None"
      and w: "fm' = fm_write fm0 (os_path_join (os_path_join org ds) ''schema.yaml'') (Descriptor s)"
      and r: "r = loader_load X (s\<lparr>name := sanitize_sql_table_name X (name s)\<rparr>) path fm'"
      and m: "df = DfNone" "kind_of s \<noteq> Materialized" "fm0 = fm_mkdir fm (os_path_join org ds)"
    from r m(2) have "r = Inr (VirtualDataFrame (s\<lparr>name := sanitize_sql_table_name X (name s)\<rparr>))"
      by (simp add: loader_load_def)
    with v w m(3) show ?thesis
      by (auto simp: fm_write_def fm_mkdir_def descriptor_of_def directory_of_def
          fm_abs_path_def storage_root_def)
  next
    fix s fm0 d
    assume v: "validate s = None"
      and w: "fm' = fm_write fm0 (os_path_join (os_path_join org ds) ''schema.yaml'') (Descriptor s)"
      and r: "r = loader_load X (s\<lparr>name := sanitize_sql_table_name X (name s)\<rparr>) path fm'"
      and m: "fm0 = to_parquet d (fm_abs_path fm (os_path_join (os_path_join org ds) ''data.parquet''))
                          (fm_mkdir fm (os_path_join org ds))"
    have "\<exists>dset. r = Inr dset"
    proof (cases "kind_of s = Materialized")
      case True
      then have "kind_of (s\<lparr>name := sanitize_sql_table_name X (name s)\<rparr>) = Materialized" by simp
      from written_payload_loads [OF p this, of X d "fm_mkdir fm (os_path_join org ds)"] r w m
      show ?thesis
        by (simp add: payload_of_def descriptor_of_def)
    next
      case False
      with r show ?thesis by (simp add: loader_load_def)
    qed
    with v w m show ?thesis
      by (auto simp: fm_write_def fm_mkdir_def to_parquet_def descriptor_of_def directory_of_def
          fm_abs_path_def storage_root_def)
  qed
qed

lemma already_exists_condition:
  assumes p: "get_validated_dataset_path path = Some (org, ds)" and typed: "df \<noteq> DfOther"
  shows "fst (create X path df desc cols src rels vw gb trs fm) = Inl DatasetAlreadyExists
     \<longleftrightarrow> fm_exists fm (directory_of org ds) \<and> fm_exists fm (descriptor_of org ds)"
proof
  assume a: "fst (create X path df desc cols src rels vw gb trs fm) = Inl DatasetAlreadyExists"
  obtain r fm' df' where c: "create X path df desc cols src rels vw gb trs fm = (r, fm', df')"
    by (metis prod_cases3)
  with a have r: "r = Inl DatasetAlreadyExists" by simp
  have nl: "loader_load X s path fm' \<noteq> Inl DatasetAlreadyExists"
    "Inl DatasetAlreadyExists \<noteq> loader_load X s path fm'" for s
    using loader_load_error [of X s path fm' DatasetAlreadyExists] by auto
  from create_outcome [OF p c] r
  show "fm_exists fm (directory_of org ds) \<and> fm_exists fm (descriptor_of org ds)"
    by (auto simp: directory_of_def descriptor_of_def nl)
next
  assume "fm_exists fm (directory_of org ds) \<and> fm_exists fm (descriptor_of org ds)"
  with p typed show "fst (create X path df desc cols src rels vw gb trs fm) = Inl DatasetAlreadyExists"
    by (simp add: create_def directory_of_def descriptor_of_def)
qed

lemma sales_path: "get_validated_dataset_path ''acme/sales'' = Some (''acme'', ''sales'')"
  by code_simp

lemma sales_created:
  "fst (create ref_collaborators ''acme/sales'' (DfFrame sales_df) None None None None False
          None None empty_fm)
   = Inr (ConcreteDataFrame \<lparr>schema = sales_schema, data = data sales_df\<rparr>)"
  by code_simp

section \<open>Unfolding create\<close>

lemma create_proceeds:
  assumes p: "get_validated_dataset_path path = Some (org, ds)"
    and ok: "df \<noteq> DfOther"
    and fresh: "\<not> (fm_exists fm (directory_of org ds) \<and> fm_exists fm (descriptor_of org ds))"
    and some: "df \<noteq> DfNone \<or> src \<noteq> None \<or> vw"
    and pt: "parse_all (make_Transformation X) trs = Inr pts"
    and pc: "parse_all (make_Column X) cols = Inr pcs"
  shows "create X path df desc cols src rels vw gb trs fm =
    (case df of
       DfFrame d \<Rightarrow>
         create_from_df X path (transform_dash_to_underscore ds) (descriptor_of org ds)
           (payload_of org ds) d desc pcs gb pts (fm_mkdir fm (directory_of org ds))
     | _ \<Rightarrow>
         if vw then create_view X path (transform_dash_to_underscore ds) (descriptor_of org ds)
                      desc rels pcs gb pts (fm_mkdir fm (directory_of org ds)) df
         else create_source X path (transform_dash_to_underscore ds) (descriptor_of org ds)
                desc src pcs gb pts (fm_mkdir fm (directory_of org ds)) df)"
proof -
  from fresh have f: "(fm_exists fm (os_path_join org ds) \<and>
     fm_exists fm (os_path_join (os_path_join org ds) ''schema.yaml'')) = False"
    by (simp add: directory_of_def descriptor_of_def)
  from some have s: "(df = DfNone \<and> src = None \<and> \<not> vw) = False" by auto
  show ?thesis
    unfolding create_def Let_def directory_of_def descriptor_of_def payload_of_def
    by (simp add: p ok f s pt pc)
qed

lemma create_success_proceeded:
  assumes p: "get_validated_dataset_path path = Some (org, ds)"
    and c: "create X path df desc cols src rels vw gb trs fm = (Inr dset, fm', df')"
  shows "df \<noteq> DfOther
    \<and> \<not> (fm_exists fm (directory_of org ds) \<and> fm_exists fm (descriptor_of org ds))
    \<and> (df \<noteq> DfNone \<or> src \<noteq> None \<or> vw)
    \<and> (\<exists>pts. parse_all (make_Transformation X) trs = Inr pts)
    \<and> (\<exists>pcs. parse_all (make_Column X) cols = Inr pcs)"
proof -
  have 1: "df \<noteq> DfOther" using c by (auto simp: create_def)
  have 2: "\<not> (fm_exists fm (directory_of org ds) \<and> fm_exists fm (descriptor_of org ds))"
    using c p 1 by (auto simp: create_def directory_of_def descriptor_of_def)
  then have f: "(fm_exists fm (os_path_join org ds) \<and>
     fm_exists fm (os_path_join (os_path_join org ds) ''schema.yaml'')) = False"
    by (simp add: directory_of_def descriptor_of_def)
  have 3: "df \<noteq> DfNone \<or> src \<noteq> None \<or> vw"
    using c by (auto simp: create_def Let_def p 1 f split: if_splits)
  then have s: "(df = DfNone \<and> src = None \<and> \<not> vw) = False" by auto
  have 4: "\<exists>pts. parse_all (make_Transformation X) trs = Inr pts"
    using c by (cases "parse_all (make_Transformation X) trs") (auto simp: create_def Let_def p 1 f s)
  then obtain pts where pt: "parse_all (make_Transformation X) trs = Inr pts" ..
  have 5: "\<exists>pcs. parse_all (make_Column X) cols = Inr pcs"
    using c by (cases "parse_all (make_Column X) cols") (auto simp: create_def Let_def p 1 f s pt)
  from 1 2 3 4 5 show ?thesis by blast
qed

lemma create_from_df_overridden:
  "create_from_df X path u sp pq d desc pcs gb pts fm =
    (case validate (overridden_schema d u pts pcs gb) of
       Some e \<Rightarrow> (Inl e, fm, DfFrame (d\<lparr>schema := overridden_schema d u pts pcs gb\<rparr>))
     | None \<Rightarrow>
         create_finish X path sp desc (overridden_schema d u pts pcs gb)
           (to_parquet d (fm_abs_path fm pq) fm)
           (DfFrame (d\<lparr>schema := overridden_schema d u pts pcs gb\<rparr>)))"
  unfolding create_from_df_def Let_def overridden_schema_def
  by (cases gb; cases pcs) (simp_all split: option.split)

lemma those_length: "those xs = Some ys \<Longrightarrow> length ys = length xs"
  by (induction xs arbitrary: ys) (auto split: option.splits)

lemma parse_all_Some:
  assumes "parse_all mk xs = Inr (Some ys)"
  shows "\<exists>l. xs = Some l \<and> l \<noteq> [] \<and> ys \<noteq> [] \<and> those (map mk l) = Some ys"
proof -
  from assms obtain l where l: "xs = Some l" "l \<noteq> []" "those (map mk l) = Some ys"
    by (auto simp: parse_all_def split: option.splits if_splits)
  from those_length [OF l(3)] l(2) have "ys \<noteq> []" by auto
  with l show ?thesis by blast
qed

lemma parse_all_None:
  "parse_all mk xs = Inr None \<Longrightarrow> xs = None \<or> xs = Some []"
  by (auto simp: parse_all_def split: option.splits if_splits)

lemma the_fields_group_by [simp]:
  "the_columns (s\<lparr>group_by := g\<rparr>) = the_columns s"
  "plain_names (s\<lparr>group_by := g\<rparr>) = plain_names s"
  "the_group_by (s\<lparr>group_by := Some l\<rparr>) = l"
  "check_name (s\<lparr>group_by := g\<rparr>) = check_name s"
  "check_kind (s\<lparr>group_by := g\<rparr>) = check_kind s"
  by (simp_all add: the_columns_def plain_names_def the_group_by_def check_name_def
      check_kind_def kind_indicators_def)

section \<open>Loading what create wrote\<close>

lemma create_finish_eq:
  "create_finish X path sp desc s fm df =
    (loader_load X (with_sanitized_name X (with_description desc s)) path
       (fm_write fm sp (Descriptor (with_description desc s))),
     fm_write fm sp (Descriptor (with_description desc s)),
     alias_schema df (with_sanitized_name X (with_description desc s)))"
  by (simp add: create_finish_def Let_def with_description_def with_sanitized_name_def)

lemma lazy_load:
  "kind_of s \<noteq> Materialized \<Longrightarrow> loader_load X s path fm = Inr (VirtualDataFrame s)"
  by (simp add: loader_load_def)

lemma kind_of_with [simp]:
  "kind_of (with_description desc s) = kind_of s"
  "kind_of (with_sanitized_name X s) = kind_of s"
  by (simp_all add: with_description_def with_sanitized_name_def)

lemma name_with [simp]:
  "name (with_description desc s) = name s"
  "name (with_sanitized_name X s) = sanitize_sql_table_name X (name s)"
  by (simp_all add: with_description_def with_sanitized_name_def)

lemma validate_with_description [simp]: "validate (with_description desc s) = validate s"
  by (simp add: with_description_def)

lemma load_after_create:
  assumes p: "get_validated_dataset_path path = Some (org, ds)"
    and v: "validate S = None"
    and FM: "FM = fm_write (to_parquet d (fm_abs_path fm (payload_of org ds))
                              (fm_mkdir fm (directory_of org ds)))
                    (descriptor_of org ds) (Descriptor (with_description desc S))"
  shows "load X path FM =
    (if kind_of S = Materialized
     then Inr (ConcreteDataFrame
                \<lparr>schema = with_sanitized_name X (with_description desc S),
                 data = apply_transformations X (transformations S) (data d)\<rparr>)
     else Inr (VirtualDataFrame (with_sanitized_name X (with_description desc S))))"
proof -
  define fm1 where "fm1 = fm_mkdir fm (directory_of org ds)"
  let ?S1 = "with_description desc S"
  let ?s = "with_sanitized_name X ?S1"
  have FM1: "FM = fm_write (to_parquet d (fm_abs_path fm1 (payload_of org ds)) fm1)
                    (descriptor_of org ds) (Descriptor ?S1)"
    by (simp add: FM fm1_def)
  note loc = payload_path_of_path [OF p]
  have root: "fm_abs_path FM q = fm_abs_path fm q" for q
    by (simp add: FM)
  have full: "os_path_join (os_path_join (project_root FM) ''datasets'') path
     = fm_abs_path fm (directory_of org ds)"
    using loc(3) root [of path] by (simp add: fm_abs_path_def storage_root_def)
  have ex: "os_path_exists FM (fm_abs_path fm (directory_of org ds))"
    by (simp add: os_path_exists_def FM fm_write_def to_parquet_def fm_mkdir_def)
  have desc: "files FM (fm_abs_path FM (os_path_join path ''schema.yaml'')) = Some (Descriptor ?S1)"
    unfolding loc(2) root by (simp add: FM fm_write_def)
  have l: "load X path FM = loader_load X ?s path FM"
    by (simp add: load_def p Let_def full ex create_loader_from_path_def desc v
        with_sanitized_name_def)
  show ?thesis
  proof (cases "kind_of S = Materialized")
    case True
    then have "kind_of ?s = Materialized" by simp
    from written_payload_loads [OF p this, of X d fm1 "Descriptor ?S1"] True l
    show ?thesis
      by (simp add: FM1 with_description_def with_sanitized_name_def)
  next
    case False
    then have "kind_of ?s \<noteq> Materialized" by simp
    from lazy_load [OF this] False l show ?thesis by simp
  qed
qed

section \<open>Claims\<close>

text \<open>
  C2. After a successful \<^verbatim>\<open>create\<close> on a path, a second \<^verbatim>\<open>create\<close> on the same path,
  whatever its other arguments (\<^verbatim>\<open>df\<close> being \<^verbatim>\<open>None\<close> or a DataFrame, as its type says),
  fails with the "dataset already exists" error and returns the storage as it was, so the
  descriptor and the data file of the first dataset are unmodified. For a valid path the
  error arises exactly when the dataset directory and the descriptor file both exist.
\<close>

theorem create_twice_already_exists:
  assumes first: "create X path df1 desc1 cols1 src1 rels1 vw1 gb1 trs1 fm = (Inr dset, fm1, df1')"
    and typed: "df2 \<noteq> DfOther"
  shows "create X2 path df2 desc2 cols2 src2 rels2 vw2 gb2 trs2 fm1
           = (Inl DatasetAlreadyExists, fm1, df2)
     \<and> (\<forall>org ds fm0. get_validated_dataset_path path = Some (org, ds) \<longrightarrow>
          (fst (create X2 path df2 desc2 cols2 src2 rels2 vw2 gb2 trs2 fm0) = Inl DatasetAlreadyExists)
           = (fm_exists fm0 (directory_of org ds) \<and> fm_exists fm0 (descriptor_of org ds)))"
proof -
  from first obtain org ds where p: "get_validated_dataset_path path = Some (org, ds)"
    by (cases "get_validated_dataset_path path") (auto simp: create_def split: if_splits)
  from create_outcome [OF p first] obtain s fm0 d where
    w: "fm1 = fm_write fm0 (os_path_join (os_path_join org ds) ''schema.yaml'') (Descriptor s)"
    and m: "fm0 = fm_mkdir fm (os_path_join org ds) \<or>
            fm0 = to_parquet d (fm_abs_path fm (os_path_join (os_path_join org ds) ''data.parquet''))
                          (fm_mkdir fm (os_path_join org ds))"
    by auto
  from exists_after_write [OF w m] p typed
  have "create X2 path df2 desc2 cols2 src2 rels2 vw2 gb2 trs2 fm1
           = (Inl DatasetAlreadyExists, fm1, df2)"
    by (simp add: create_def)
  moreover have "\<forall>org ds fm0. get_validated_dataset_path path = Some (org, ds) \<longrightarrow>
          (fst (create X2 path df2 desc2 cols2 src2 rels2 vw2 gb2 trs2 fm0) = Inl DatasetAlreadyExists)
           = (fm_exists fm0 (directory_of org ds) \<and> fm_exists fm0 (descriptor_of org ds))"
    using already_exists_condition [OF _ typed] by blast
  ultimately show ?thesis by blast
qed

theorem create_twice_already_exists_witness:
  "fst (create ref_collaborators ''acme/sales'' (DfFrame sales_df) None None None None
          False None None empty_fm)
     = Inr (ConcreteDataFrame \<lparr>schema = sales_schema, data = data sales_df\<rparr>)
   \<and> DfNone \<noteq> DfOther
   \<and> create ref_collaborators ''acme/sales'' DfNone None None None None True None None
     (fst (snd (create ref_collaborators ''acme/sales'' (DfFrame sales_df) None None None None
                  False None None empty_fm)))
   = (Inl DatasetAlreadyExists,
      fst (snd (create ref_collaborators ''acme/sales'' (DfFrame sales_df) None None None None
                  False None None empty_fm)),
      DfNone)"
proof -
  let ?c = "create ref_collaborators ''acme/sales'' (DfFrame sales_df) None None None None
              False None None empty_fm"
  have first: "?c = (Inr (ConcreteDataFrame \<lparr>schema = sales_schema, data = data sales_df\<rparr>),
                     fst (snd ?c), snd (snd ?c))"
    using sales_created by (simp add: prod_eq_iff)
  have typed: "DfNone \<noteq> DfOther" by simp
  from create_twice_already_exists [OF first typed] sales_created show ?thesis by blast
qed

text \<open>
  C3. In every execution of \<^verbatim>\<open>create\<close>: a call that ends in \<^verbatim>\<open>InvalidConfigError\<close>, the
  error of a failed validation, has created the dataset directory and nothing else, every
  file being as it was; and the descriptor file after any call is either what it was before
  or a descriptor whose schema passes validation. So the descriptor is written only after
  validation has succeeded.
\<close>

theorem descriptor_written_only_after_validation:
  assumes c: "create X path df desc cols src rels vw gb trs fm = (r, fm', df')"
  shows "(r = Inl InvalidConfigError \<longrightarrow>
         files fm' = files fm \<and>
         (\<exists>org ds. get_validated_dataset_path path = Some (org, ds) \<and>
            dirs fm' = insert (fm_abs_path fm (directory_of org ds)) (dirs fm)))
    \<and> (\<forall>org ds. get_validated_dataset_path path = Some (org, ds) \<longrightarrow>
          files fm' (fm_abs_path fm (descriptor_of org ds))
            = files fm (fm_abs_path fm (descriptor_of org ds))
          \<or> (\<exists>s. files fm' (fm_abs_path fm (descriptor_of org ds)) = Some (Descriptor s)
                 \<and> validate s = None))"
proof (cases "get_validated_dataset_path path")
  case None
  with c have "r = (if df = DfOther then Inl ValueError_NotDataFrame else Inl InvalidPathError)"
    and "fm' = fm"
    by (auto simp: create_def split: if_splits)
  with None show ?thesis by (auto split: if_splits)
next
  case (Some a)
  then obtain org ds where p: "get_validated_dataset_path path = Some (org, ds)"
    by (cases a) simp
  have 1: "\<forall>e. r = Inl e \<longrightarrow> files fm' = files fm"
    using create_succeeds_or_leaves_files [OF p c] by auto
  have 2: "r = Inl InvalidConfigError \<longrightarrow>
         files fm' = files fm \<and>
         (\<exists>org ds. get_validated_dataset_path path = Some (org, ds) \<and>
            dirs fm' = insert (fm_abs_path fm (directory_of org ds)) (dirs fm))"
  proof
    assume e: "r = Inl InvalidConfigError"
    have nl: "loader_load X s path fm' \<noteq> Inl InvalidConfigError"
      "Inl InvalidConfigError \<noteq> loader_load X s path fm'" for s
      using loader_load_error [of X s path fm' InvalidConfigError] by auto
    from create_outcome [OF p c] e have "fm' = fm_mkdir fm (os_path_join org ds)"
      by (auto simp: nl)
    with p 1 e show "files fm' = files fm \<and>
         (\<exists>org ds. get_validated_dataset_path path = Some (org, ds) \<and>
            dirs fm' = insert (fm_abs_path fm (directory_of org ds)) (dirs fm))"
      by (auto simp: fm_mkdir_def directory_of_def)
  qed
  have 3: "files fm' (fm_abs_path fm (descriptor_of org ds))
            = files fm (fm_abs_path fm (descriptor_of org ds))
          \<or> (\<exists>s. files fm' (fm_abs_path fm (descriptor_of org ds)) = Some (Descriptor s)
                 \<and> validate s = None)"
    using create_succeeds_or_leaves_files [OF p c] by auto
  from 2 3 p show ?thesis by auto
qed

theorem descriptor_written_only_after_validation_witness:
  "fst (create ref_collaborators ''acme/sales'' (DfFrame sales_df) None
          (Some [ [(''name'', PyStr ''category'')] ]) None None False None None empty_fm)
     = Inl InvalidConfigError
   \<and> files (fst (snd (create ref_collaborators ''acme/sales'' (DfFrame sales_df) None
          (Some [ [(''name'', PyStr ''category'')] ]) None None False None None empty_fm)))
     = files empty_fm
   \<and> get_validated_dataset_path ''acme/sales'' = Some (''acme'', ''sales'')"
proof -
  let ?c = "create ref_collaborators ''acme/sales'' (DfFrame sales_df) None
          (Some [ [(''name'', PyStr ''category'')] ]) None None False None None empty_fm"
  have r: "fst ?c = Inl InvalidConfigError" by code_simp
  then have c: "?c = (Inl InvalidConfigError, fst (snd ?c), snd (snd ?c))"
    by (simp add: prod_eq_iff)
  from descriptor_written_only_after_validation [OF c] r sales_path show ?thesis by blast
qed

text \<open>
  C9. For a valid path \<^verbatim>\<open>organization/dataset\<close> with no dataset yet and well-formed column
  and transformation entries, each branch of \<^verbatim>\<open>create\<close> whose schema validates (a
  DataFrame, a view, a source naming a table) writes a descriptor whose name is the
  dataset segment with hyphens replaced by underscores, and returns what the loader gives
  for that schema with its name sanitized, on the storage that already holds the
  descriptor with the stored name: sanitization comes after the write, right before the
  hand-over. Every successful \<^verbatim>\<open>create\<close> is of this form.
\<close>

theorem stored_name_then_sanitized:
  assumes p: "get_validated_dataset_path path = Some (org, ds)"
    and fresh: "\<not> (fm_exists fm (directory_of org ds) \<and> fm_exists fm (descriptor_of org ds))"
    and pt: "parse_all (make_Transformation X) trs = Inr pts"
    and pc: "parse_all (make_Column X) cols = Inr pcs"
  shows "(S = overridden_schema d (transform_dash_to_underscore ds) pts pcs gb \<and> validate S = None
          \<and> FM = fm_write (to_parquet d (fm_abs_path fm (payload_of org ds))
                              (fm_mkdir fm (directory_of org ds)))
                    (descriptor_of org ds) (Descriptor (with_description desc S))
      \<longrightarrow> create X path (DfFrame d) desc cols src rels vw gb trs fm
            = (loader_load X (with_sanitized_name X (with_description desc S)) path FM, FM,
               DfFrame (d\<lparr>schema := with_sanitized_name X (with_description desc S)\<rparr>))
          \<and> files FM (fm_abs_path fm (descriptor_of org ds))
              = Some (Descriptor (with_description desc S))
          \<and> name (with_description desc S) = transform_dash_to_underscore ds
          \<and> name (with_sanitized_name X (with_description desc S))
              = sanitize_sql_table_name X (transform_dash_to_underscore ds))
    \<and> (those (map (make_Relation X) (case rels of None \<Rightarrow> [] | Some l \<Rightarrow> l)) = Some relation
          \<and> S = view_schema (transform_dash_to_underscore ds) relation pcs gb pts
          \<and> validate S = None
          \<and> FM = fm_write (fm_mkdir fm (directory_of org ds)) (descriptor_of org ds)
                    (Descriptor (with_description desc S))
      \<longrightarrow> create X path DfNone desc cols src rels True gb trs fm
            = (Inr (VirtualDataFrame (with_sanitized_name X (with_description desc S))), FM, DfNone)
          \<and> files FM (fm_abs_path fm (descriptor_of org ds))
              = Some (Descriptor (with_description desc S))
          \<and> name (with_description desc S) = transform_dash_to_underscore ds
          \<and> name (with_sanitized_name X (with_description desc S))
              = sanitize_sql_table_name X (transform_dash_to_underscore ds))
    \<and> (truthy (dict_get sd ''table'') \<and> make_Source X sd = Some so
          \<and> S = source_schema (transform_dash_to_underscore ds) so pcs gb pts
          \<and> validate S = None
          \<and> FM = fm_write (fm_mkdir fm (directory_of org ds)) (descriptor_of org ds)
                    (Descriptor (with_description desc S))
      \<longrightarrow> create X path DfNone desc cols (Some sd) rels False gb trs fm
            = (Inr (VirtualDataFrame (with_sanitized_name X (with_description desc S))), FM, DfNone)
          \<and> files FM (fm_abs_path fm (descriptor_of org ds))
              = Some (Descriptor (with_description desc S))
          \<and> name (with_description desc S) = transform_dash_to_underscore ds
          \<and> name (with_sanitized_name X (with_description desc S))
              = sanitize_sql_table_name X (transform_dash_to_underscore ds))
    \<and> (create X path df desc cols src rels vw gb trs fm = (Inr dset, fm', df')
      \<longrightarrow> (\<exists>s. files fm' (fm_abs_path fm (descriptor_of org ds)) = Some (Descriptor s)
               \<and> name s = transform_dash_to_underscore ds
               \<and> loader_load X (with_sanitized_name X s) path fm' = Inr dset))"
proof (intro conjI impI)
  assume a: "S = overridden_schema d (transform_dash_to_underscore ds) pts pcs gb \<and> validate S = None
          \<and> FM = fm_write (to_parquet d (fm_abs_path fm (payload_of org ds))
                              (fm_mkdir fm (directory_of org ds)))
                    (descriptor_of org ds) (Descriptor (with_description desc S))"
  then have S: "S = overridden_schema d (transform_dash_to_underscore ds) pts pcs gb"
    and v: "validate S = None"
    and FM: "FM = fm_write (to_parquet d (fm_abs_path fm (payload_of org ds))
                              (fm_mkdir fm (directory_of org ds)))
                    (descriptor_of org ds) (Descriptor (with_description desc S))"
    by blast+
  have "create X path (DfFrame d) desc cols src rels vw gb trs fm =
    create_from_df X path (transform_dash_to_underscore ds) (descriptor_of org ds)
           (payload_of org ds) d desc pcs gb pts (fm_mkdir fm (directory_of org ds))"
    using create_proceeds [OF p _ fresh _ pt pc, of "DfFrame d"] by simp
  also have "\<dots> = create_finish X path (descriptor_of org ds) desc S
       (to_parquet d (fm_abs_path fm (payload_of org ds)) (fm_mkdir fm (directory_of org ds)))
       (DfFrame (d\<lparr>schema := S\<rparr>))"
    using v by (simp add: create_from_df_overridden S)
  finally show "create X path (DfFrame d) desc cols src rels vw gb trs fm
            = (loader_load X (with_sanitized_name X (with_description desc S)) path FM, FM,
               DfFrame (d\<lparr>schema := with_sanitized_name X (with_description desc S)\<rparr>))"
    by (simp add: create_finish_eq FM alias_schema_def)
  show "files FM (fm_abs_path fm (descriptor_of org ds))
              = Some (Descriptor (with_description desc S))"
    by (simp add: FM fm_write_def)
  show "name (with_description desc S) = transform_dash_to_underscore ds"
    by (simp add: S overridden_schema_def)
  then show "name (with_sanitized_name X (with_description desc S))
              = sanitize_sql_table_name X (transform_dash_to_underscore ds)"
    by simp
next
  assume a: "those (map (make_Relation X) (case rels of None \<Rightarrow> [] | Some l \<Rightarrow> l)) = Some relation
          \<and> S = view_schema (transform_dash_to_underscore ds) relation pcs gb pts
          \<and> validate S = None
          \<and> FM = fm_write (fm_mkdir fm (directory_of org ds)) (descriptor_of org ds)
                    (Descriptor (with_description desc S))"
  then have r: "those (map (make_Relation X) (case rels of None \<Rightarrow> [] | Some l \<Rightarrow> l)) = Some relation"
    and S: "S = view_schema (transform_dash_to_underscore ds) relation pcs gb pts"
    and v: "validate S = None"
    and FM: "FM = fm_write (fm_mkdir fm (directory_of org ds)) (descriptor_of org ds)
                    (Descriptor (with_description desc S))"
    by blast+
  have k: "kind_of S \<noteq> Materialized"
    by (simp add: S view_schema_def kind_of_def kind_indicators_def)
  have "create X path DfNone desc cols src rels True gb trs fm =
      create_view X path (transform_dash_to_underscore ds) (descriptor_of org ds)
                desc rels pcs gb pts (fm_mkdir fm (directory_of org ds)) DfNone"
    using create_proceeds [OF p _ fresh _ pt pc, of DfNone src True] by simp
  also have "\<dots> = create_finish X path (descriptor_of org ds) desc S
                     (fm_mkdir fm (directory_of org ds)) DfNone"
    using v by (simp add: create_view_def r S view_schema_def)
  finally show "create X path DfNone desc cols src rels True gb trs fm
            = (Inr (VirtualDataFrame (with_sanitized_name X (with_description desc S))), FM, DfNone)"
    using k by (simp add: create_finish_eq FM alias_schema_def lazy_load)
  show "files FM (fm_abs_path fm (descriptor_of org ds))
              = Some (Descriptor (with_description desc S))"
    by (simp add: FM fm_write_def)
  show "name (with_description desc S) = transform_dash_to_underscore ds"
    by (simp add: S view_schema_def)
  then show "name (with_sanitized_name X (with_description desc S))
              = sanitize_sql_table_name X (transform_dash_to_underscore ds)"
    by simp
next
  assume a: "truthy (dict_get sd ''table'') \<and> make_Source X sd = Some so
          \<and> S = source_schema (transform_dash_to_underscore ds) so pcs gb pts
          \<and> validate S = None
          \<and> FM = fm_write (fm_mkdir fm (directory_of org ds)) (descriptor_of org ds)
                    (Descriptor (with_description desc S))"
  then have t: "truthy (dict_get sd ''table'')" and so: "make_Source X sd = Some so"
    and S: "S = source_schema (transform_dash_to_underscore ds) so pcs gb pts"
    and v: "validate S = None"
    and FM: "FM = fm_write (fm_mkdir fm (directory_of org ds)) (descriptor_of org ds)
                    (Descriptor (with_description desc S))"
    by blast+
  have k: "kind_of S \<noteq> Materialized"
    by (simp add: S source_schema_def kind_of_def kind_indicators_def)
  have "create X path DfNone desc cols (Some sd) rels False gb trs fm =
      create_source X path (transform_dash_to_underscore ds) (descriptor_of org ds)
                desc (Some sd) pcs gb pts (fm_mkdir fm (directory_of org ds)) DfNone"
    using create_proceeds [OF p _ fresh _ pt pc, of DfNone "Some sd" False] by simp
  also have "\<dots> = create_finish X path (descriptor_of org ds) desc S
                     (fm_mkdir fm (directory_of org ds)) DfNone"
    using v by (simp add: create_source_def t so S source_schema_def)
  finally show "create X path DfNone desc cols (Some sd) rels False gb trs fm
            = (Inr (VirtualDataFrame (with_sanitized_name X (with_description desc S))), FM, DfNone)"
    using k by (simp add: create_finish_eq FM alias_schema_def lazy_load)
  show "files FM (fm_abs_path fm (descriptor_of org ds))
              = Some (Descriptor (with_description desc S))"
    by (simp add: FM fm_write_def)
  show "name (with_description desc S) = transform_dash_to_underscore ds"
    by (simp add: S source_schema_def)
  then show "name (with_sanitized_name X (with_description desc S))
              = sanitize_sql_table_name X (transform_dash_to_underscore ds)"
    by simp
next
  assume c: "create X path df desc cols src rels vw gb trs fm = (Inr dset, fm', df')"
  from create_outcome [OF p c]
  show "\<exists>s. files fm' (fm_abs_path fm (descriptor_of org ds)) = Some (Descriptor s)
               \<and> name s = transform_dash_to_underscore ds
               \<and> loader_load X (with_sanitized_name X s) path fm' = Inr dset"
    by (auto simp: fm_write_def fm_mkdir_def to_parquet_def descriptor_of_def
        with_sanitized_name_def)
qed

lemma hyphen_paths:
  "get_validated_dataset_path ''acme/my-sales'' = Some (''acme'', ''my-sales'')"
  "get_validated_dataset_path ''acme/my-view'' = Some (''acme'', ''my-view'')"
  "get_validated_dataset_path ''acme/my-orders'' = Some (''acme'', ''my-orders'')"
  by code_simp+

lemma hyphen_fresh:
  "\<not> (fm_exists empty_fm (directory_of ''acme'' ''my-sales'')
      \<and> fm_exists empty_fm (descriptor_of ''acme'' ''my-sales''))"
  "\<not> (fm_exists empty_fm (directory_of ''acme'' ''my-view'')
      \<and> fm_exists empty_fm (descriptor_of ''acme'' ''my-view''))"
  "\<not> (fm_exists empty_fm (directory_of ''acme'' ''my-orders'')
      \<and> fm_exists empty_fm (descriptor_of ''acme'' ''my-orders''))"
  by code_simp+

lemma short_parsed:
  "parse_all (make_Transformation short_collaborators) None = Inr None"
  "parse_all (make_Column short_collaborators) None = Inr None"
  "those (map (make_Relation short_collaborators)
            (case Some [orders_relation] of None \<Rightarrow> [] | Some l \<Rightarrow> l))
     = Some [\<lparr>rel_type = ''one-to-many'', rel_source = ''customers.id'',
              rel_target = ''orders.customer_id''\<rparr>]"
  "truthy (dict_get orders_source ''table'')"
  "make_Source short_collaborators orders_source
     = Some \<lparr>src_type = ''mysql'', src_table = Some ''orders''\<rparr>"
  by code_simp+

lemma short_names:
  "transform_dash_to_underscore ''my-sales'' = ''my_sales''"
  "transform_dash_to_underscore ''my-view'' = ''my_view''"
  "transform_dash_to_underscore ''my-orders'' = ''my_orders''"
  "sanitize_sql_table_name short_collaborators ''my_sales'' = ''my_sal''"
  "sanitize_sql_table_name short_collaborators ''my_view'' = ''my_vie''"
  "sanitize_sql_table_name short_collaborators ''my_orders'' = ''my_ord''"
  by code_simp+

lemma short_valid:
  "validate (overridden_schema sales_df ''my_sales'' None None None) = None"
  "validate (view_schema ''my_view''
               [\<lparr>rel_type = ''one-to-many'', rel_source = ''customers.id'',
                 rel_target = ''orders.customer_id''\<rparr>] None None None) = None"
  "validate (source_schema ''my_orders'' \<lparr>src_type = ''mysql'', src_table = Some ''orders''\<rparr>
               None None None) = None"
  by code_simp+

theorem stored_name_then_sanitized_witness:
  "files (fst (snd (create short_collaborators ''acme/my-sales'' (DfFrame sales_df) None None
                      None None False None None empty_fm)))
         (fm_abs_path empty_fm (descriptor_of ''acme'' ''my-sales''))
     = Some (Descriptor
              (with_description None (overridden_schema sales_df ''my_sales'' None None None)))
   \<and> snd (snd (create short_collaborators ''acme/my-sales'' (DfFrame sales_df) None None
                  None None False None None empty_fm))
     = DfFrame (sales_df\<lparr>schema := with_sanitized_name short_collaborators
                  (with_description None (overridden_schema sales_df ''my_sales'' None None None))\<rparr>)
   \<and> name (with_description None (overridden_schema sales_df ''my_sales'' None None None))
     = ''my_sales''
   \<and> name (with_sanitized_name short_collaborators
             (with_description None (overridden_schema sales_df ''my_sales'' None None None)))
     = ''my_sal''
   \<and> create short_collaborators ''acme/my-view'' DfNone None None None (Some [orders_relation])
        True None None empty_fm
     = (Inr (VirtualDataFrame (with_sanitized_name short_collaborators
               (with_description None
                 (view_schema ''my_view''
                    [\<lparr>rel_type = ''one-to-many'', rel_source = ''customers.id'',
                      rel_target = ''orders.customer_id''\<rparr>] None None None)))),
        fm_write (fm_mkdir empty_fm (directory_of ''acme'' ''my-view''))
          (descriptor_of ''acme'' ''my-view'')
          (Descriptor (with_description None
                 (view_schema ''my_view''
                    [\<lparr>rel_type = ''one-to-many'', rel_source = ''customers.id'',
                      rel_target = ''orders.customer_id''\<rparr>] None None None))),
        DfNone)
   \<and> name (with_sanitized_name short_collaborators
               (with_description None
                 (view_schema ''my_view''
                    [\<lparr>rel_type = ''one-to-many'', rel_source = ''customers.id'',
                      rel_target = ''orders.customer_id''\<rparr>] None None None)))
     = ''my_vie''
   \<and> create short_collaborators ''acme/my-orders'' DfNone None None (Some orders_source) None
        False None None empty_fm
     = (Inr (VirtualDataFrame (with_sanitized_name short_collaborators
               (with_description None
                 (source_schema ''my_orders''
                    \<lparr>src_type = ''mysql'', src_table = Some ''orders''\<rparr> None None None)))),
        fm_write (fm_mkdir empty_fm (directory_of ''acme'' ''my-orders''))
          (descriptor_of ''acme'' ''my-orders'')
          (Descriptor (with_description None
                 (source_schema ''my_orders''
                    \<lparr>src_type = ''mysql'', src_table = Some ''orders''\<rparr> None None None))),
        DfNone)
   \<and> name (with_sanitized_name short_collaborators
               (with_description None
                 (source_schema ''my_orders''
                    \<lparr>src_type = ''mysql'', src_table = Some ''orders''\<rparr> None None None)))
     = ''my_ord''
   \<and> (\<exists>s. files (fm_write (fm_mkdir empty_fm (directory_of ''acme'' ''my-view''))
                     (descriptor_of ''acme'' ''my-view'')
                     (Descriptor (with_description None
                        (view_schema ''my_view''
                           [\<lparr>rel_type = ''one-to-many'', rel_source = ''customers.id'',
                             rel_target = ''orders.customer_id''\<rparr>] None None None))))
                (fm_abs_path empty_fm (descriptor_of ''acme'' ''my-view''))
              = Some (Descriptor s)
            \<and> name s = ''my_view'')"
proof -
  let ?rel = "[\<lparr>rel_type = ''one-to-many'', rel_source = ''customers.id'',
                rel_target = ''orders.customer_id''\<rparr>]"
  let ?so = "\<lparr>src_type = ''mysql'', src_table = Some ''orders''\<rparr>"
  let ?S1 = "overridden_schema sales_df ''my_sales'' None None None"
  let ?S2 = "view_schema ''my_view'' ?rel None None None"
  let ?S3 = "source_schema ''my_orders'' ?so None None None"
  note t1 = stored_name_then_sanitized [OF hyphen_paths(1) hyphen_fresh(1) short_parsed(1,2),
      where S = ?S1 and d = sales_df and gb = None and desc = None
        and FM = "fm_write (to_parquet sales_df (fm_abs_path empty_fm (payload_of ''acme'' ''my-sales''))
                              (fm_mkdir empty_fm (directory_of ''acme'' ''my-sales'')))
                    (descriptor_of ''acme'' ''my-sales'') (Descriptor (with_description None ?S1))"
        and src = None and rels = None and vw = False, THEN conjunct1, unfolded short_names]
  note t2 = stored_name_then_sanitized [OF hyphen_paths(2) hyphen_fresh(2) short_parsed(1,2),
      where S = ?S2 and gb = None and desc = None and relation = ?rel
        and rels = "Some [orders_relation]" and src = None
        and FM = "fm_write (fm_mkdir empty_fm (directory_of ''acme'' ''my-view''))
                    (descriptor_of ''acme'' ''my-view'') (Descriptor (with_description None ?S2))",
      THEN conjunct2, THEN conjunct1, unfolded short_names]
  note t3 = stored_name_then_sanitized [OF hyphen_paths(3) hyphen_fresh(3) short_parsed(1,2),
      where S = ?S3 and gb = None and desc = None and sd = orders_source and so = ?so
        and rels = None
        and FM = "fm_write (fm_mkdir empty_fm (directory_of ''acme'' ''my-orders''))
                    (descriptor_of ''acme'' ''my-orders'') (Descriptor (with_description None ?S3))",
      THEN conjunct2, THEN conjunct2, THEN conjunct1, unfolded short_names]
  from t1 short_valid(1) have 1:
    "create short_collaborators ''acme/my-sales'' (DfFrame sales_df) None None None None False
       None None empty_fm
     = (loader_load short_collaborators (with_sanitized_name short_collaborators
            (with_description None ?S1)) ''acme/my-sales''
          (fm_write (to_parquet sales_df (fm_abs_path empty_fm (payload_of ''acme'' ''my-sales''))
                              (fm_mkdir empty_fm (directory_of ''acme'' ''my-sales'')))
                    (descriptor_of ''acme'' ''my-sales'') (Descriptor (with_description None ?S1))),
        fm_write (to_parquet sales_df (fm_abs_path empty_fm (payload_of ''acme'' ''my-sales''))
                              (fm_mkdir empty_fm (directory_of ''acme'' ''my-sales'')))
                    (descriptor_of ''acme'' ''my-sales'') (Descriptor (with_description None ?S1)),
        DfFrame (sales_df\<lparr>schema := with_sanitized_name short_collaborators
                  (with_description None ?S1)\<rparr>))"
    and f1: "files (fm_write (to_parquet sales_df (fm_abs_path empty_fm (payload_of ''acme'' ''my-sales''))
                              (fm_mkdir empty_fm (directory_of ''acme'' ''my-sales'')))
                    (descriptor_of ''acme'' ''my-sales'') (Descriptor (with_description None ?S1)))
              (fm_abs_path empty_fm (descriptor_of ''acme'' ''my-sales''))
            = Some (Descriptor (with_description None ?S1))"
    and n1: "name (with_description None ?S1) = ''my_sales''"
      "name (with_sanitized_name short_collaborators (with_description None ?S1)) = ''my_sal''"
    by blast+
  from t2 short_parsed(3) short_valid(2) have 2:
    "create short_collaborators ''acme/my-view'' DfNone None None None (Some [orders_relation])
        True None None empty_fm
     = (Inr (VirtualDataFrame (with_sanitized_name short_collaborators
               (with_description None ?S2))),
        fm_write (fm_mkdir empty_fm (directory_of ''acme'' ''my-view''))
          (descriptor_of ''acme'' ''my-view'') (Descriptor (with_description None ?S2)),
        DfNone)"
    and n2: "name (with_sanitized_name short_collaborators (with_description None ?S2)) = ''my_vie''"
    by blast+
  from t3 short_parsed(4,5) short_valid(3) have 3:
    "create short_collaborators ''acme/my-orders'' DfNone None None (Some orders_source) None
        False None None empty_fm
     = (Inr (VirtualDataFrame (with_sanitized_name short_collaborators
               (with_description None ?S3))),
        fm_write (fm_mkdir empty_fm (directory_of ''acme'' ''my-orders''))
          (descriptor_of ''acme'' ''my-orders'') (Descriptor (with_description None ?S3)),
        DfNone)"
    and n3: "name (with_sanitized_name short_collaborators (with_description None ?S3)) = ''my_ord''"
    by blast+
  from 1 f1 have a: "files (fst (snd (create short_collaborators ''acme/my-sales''
                      (DfFrame sales_df) None None None None False None None empty_fm)))
         (fm_abs_path empty_fm (descriptor_of ''acme'' ''my-sales''))
     = Some (Descriptor (with_description None ?S1))"
    by simp
  from 1 have b: "snd (snd (create short_collaborators ''acme/my-sales'' (DfFrame sales_df) None
                  None None None False None None empty_fm))
     = DfFrame (sales_df\<lparr>schema := with_sanitized_name short_collaborators
                  (with_description None ?S1)\<rparr>)"
    by simp
  note t4 = stored_name_then_sanitized [OF hyphen_paths(2) hyphen_fresh(2) short_parsed(1,2),
      THEN conjunct2, THEN conjunct2, THEN conjunct2, THEN mp, OF 2, unfolded short_names]
  from t4 have c: "\<exists>s. files (fm_write (fm_mkdir empty_fm (directory_of ''acme'' ''my-view''))
                     (descriptor_of ''acme'' ''my-view'') (Descriptor (with_description None ?S2)))
                (fm_abs_path empty_fm (descriptor_of ''acme'' ''my-view''))
              = Some (Descriptor s)
            \<and> name s = ''my_view''"
    by blast
  from a b n1 2 n2 3 n3 c show ?thesis by blast
qed

text \<open>
  C7. When \<^verbatim>\<open>create\<close> is called with a DataFrame on a valid path with no dataset yet, and
  the column and transformation entries are well formed, the schema it works with is the
  DataFrame's own schema with the name and the transformations overridden by the call's
  arguments and the columns and \<^verbatim>\<open>group_by\<close> overridden only when supplied. That schema is
  validated: if it passes, it is persisted in the descriptor (with the description
  override) and the payload is written to the data artifact path; if it fails, the call
  ends in \<^verbatim>\<open>InvalidConfigError\<close> with no file written.
\<close>


theorem create_dataframe_schema:
  assumes p: "get_validated_dataset_path path = Some (org, ds)"
    and fresh: "\<not> (fm_exists fm (directory_of org ds) \<and> fm_exists fm (descriptor_of org ds))"
    and pt: "parse_all (make_Transformation X) trs = Inr pts"
    and pc: "parse_all (make_Column X) cols = Inr pcs"
    and c: "create X path (DfFrame d) desc cols src rels vw gb trs fm = (r, fm', df')"
    and S: "S = overridden_schema d (transform_dash_to_underscore ds) pts pcs gb"
  shows "(validate S = None \<longrightarrow>
           files fm' (fm_abs_path fm (descriptor_of org ds))
             = Some (Descriptor (S\<lparr>description := py_or desc (description (schema d))\<rparr>))
           \<and> files fm' (fm_abs_path fm (payload_of org ds)) = Some (Parquet (data d)))
    \<and> (validate S \<noteq> None \<longrightarrow> r = Inl InvalidConfigError \<and> files fm' = files fm)
    \<and> name S = transform_dash_to_underscore ds
    \<and> transformations S = pts
    \<and> (cols = None \<longrightarrow> columns S = columns (schema d))
    \<and> (gb = None \<longrightarrow> group_by S = group_by (schema d))"
proof -
  have u: "create X path (DfFrame d) desc cols src rels vw gb trs fm =
    create_from_df X path (transform_dash_to_underscore ds) (descriptor_of org ds)
           (payload_of org ds) d desc pcs gb pts (fm_mkdir fm (directory_of org ds))"
    using create_proceeds [OF p _ fresh _ pt pc, of "DfFrame d"] by simp
  have props: "name S = transform_dash_to_underscore ds \<and> transformations S = pts
    \<and> (cols = None \<longrightarrow> columns S = columns (schema d))
    \<and> (gb = None \<longrightarrow> group_by S = group_by (schema d))"
    using pc by (auto simp: S overridden_schema_def parse_all_def)
  have d: "description S = description (schema d)"
    by (simp add: S overridden_schema_def)
  show ?thesis
  proof (cases "validate S")
    case None
    with c u S have "create_finish X path (descriptor_of org ds) desc S
           (to_parquet d (fm_abs_path fm (payload_of org ds)) (fm_mkdir fm (directory_of org ds)))
           (DfFrame (d\<lparr>schema := S\<rparr>)) = (r, fm', df')"
      by (simp add: create_from_df_overridden)
    from create_finish_shape [OF this] descriptor_ne_payload [OF p, of fm] None props d
    show ?thesis
      by (simp add: fm_write_def to_parquet_def fm_mkdir_def)
  next
    case (Some e)
    with validate_cases [of S] have e: "e = InvalidConfigError" by simp
    from c u S Some e have "r = Inl InvalidConfigError" "fm' = fm_mkdir fm (directory_of org ds)"
      by (simp_all add: create_from_df_overridden)
    with Some props show ?thesis by (simp add: fm_mkdir_def)
  qed
qed

lemma empty_fresh:
  "\<not> (fm_exists empty_fm (directory_of ''acme'' ''sales'')
      \<and> fm_exists empty_fm (descriptor_of ''acme'' ''sales''))"
  by code_simp

lemma agg_columns_parsed:
  "parse_all (make_Column ref_collaborators) (Some agg_columns) = Inr (Some agg_parsed)"
  by code_simp

lemma no_transformations_parsed:
  "parse_all (make_Transformation ref_collaborators) None = Inr None"
  by code_simp

lemma agg_schema_valid:
  "validate (overridden_schema sales_df (transform_dash_to_underscore ''sales'') None
               (Some agg_parsed) (Some [''category''])) = None"
  by code_simp

theorem create_dataframe_schema_witness:
  "files (fst (snd (create ref_collaborators ''acme/sales'' (DfFrame sales_df) None
                      (Some agg_columns) None None False (Some [''category'']) None empty_fm)))
         (fm_abs_path empty_fm (descriptor_of ''acme'' ''sales''))
     = Some (Descriptor
              ((overridden_schema sales_df (transform_dash_to_underscore ''sales'') None
                  (Some agg_parsed) (Some [''category'']))
               \<lparr>description := py_or None (description (schema sales_df))\<rparr>))
   \<and> files (fst (snd (create ref_collaborators ''acme/sales'' (DfFrame sales_df) None
                      (Some agg_columns) None None False (Some [''category'']) None empty_fm)))
         (fm_abs_path empty_fm (payload_of ''acme'' ''sales''))
     = Some (Parquet (data sales_df))
   \<and> validate (overridden_schema sales_df (transform_dash_to_underscore ''sales'') None
               (Some agg_parsed) (Some [''category''])) = None"
proof -
  let ?c = "create ref_collaborators ''acme/sales'' (DfFrame sales_df) None
              (Some agg_columns) None None False (Some [''category'']) None empty_fm"
  have c: "?c = (fst ?c, fst (snd ?c), snd (snd ?c))" by simp
  from create_dataframe_schema [OF sales_path empty_fresh no_transformations_parsed
      agg_columns_parsed c refl] agg_schema_valid
  show ?thesis by blast
qed

text \<open>
  C10, as amended. After a successful \<^verbatim>\<open>create\<close> with a DataFrame, the caller's
  \<^verbatim>\<open>df.schema\<close> has the sanitized underscore name; its transformations are the parsed
  \<^verbatim>\<open>transformations\<close> argument, or \<^verbatim>\<open>None\<close> when the argument is omitted or empty; its
  columns are the parsed \<^verbatim>\<open>columns\<close> argument when that is supplied and non-empty, and
  are left as they were when it is omitted or empty; its \<^verbatim>\<open>group_by\<close> is the argument
  whenever that is not \<^verbatim>\<open>None\<close>. The payload of the DataFrame is untouched.
\<close>


theorem create_mutates_dataframe_schema:
  assumes p: "get_validated_dataset_path path = Some (org, ds)"
    and c: "create X path (DfFrame d) desc cols src rels vw gb trs fm = (Inr dset, fm', df')"
  shows "\<exists>d'. df' = DfFrame d' \<and> data d' = data d
     \<and> name (schema d') = sanitize_sql_table_name X (transform_dash_to_underscore ds)
     \<and> parse_all (make_Transformation X) trs = Inr (transformations (schema d'))
     \<and> (case cols of
           None \<Rightarrow> columns (schema d') = columns (schema d)
         | Some l \<Rightarrow>
             if l \<noteq> [] then parse_all (make_Column X) cols = Inr (columns (schema d'))
             else columns (schema d') = columns (schema d))
     \<and> group_by (schema d') = (case gb of None \<Rightarrow> group_by (schema d) | Some g \<Rightarrow> Some g)"
proof -
  from create_success_proceeded [OF p c] obtain pts pcs where
    fresh: "\<not> (fm_exists fm (directory_of org ds) \<and> fm_exists fm (descriptor_of org ds))"
    and pt: "parse_all (make_Transformation X) trs = Inr pts"
    and pc: "parse_all (make_Column X) cols = Inr pcs"
    by blast
  define S where "S = overridden_schema d (transform_dash_to_underscore ds) pts pcs gb"
  have u: "create X path (DfFrame d) desc cols src rels vw gb trs fm =
    create_from_df X path (transform_dash_to_underscore ds) (descriptor_of org ds)
           (payload_of org ds) d desc pcs gb pts (fm_mkdir fm (directory_of org ds))"
    using create_proceeds [OF p _ fresh _ pt pc, of "DfFrame d"] by simp
  have v: "validate S = None"
  proof (cases "validate S")
    case (Some e)
    with c u show ?thesis by (simp add: create_from_df_overridden S_def)
  qed simp
  with c u have "create_finish X path (descriptor_of org ds) desc S
           (to_parquet d (fm_abs_path fm (payload_of org ds)) (fm_mkdir fm (directory_of org ds)))
           (DfFrame (d\<lparr>schema := S\<rparr>)) = (Inr dset, fm', df')"
    by (simp add: create_from_df_overridden S_def)
  from create_finish_shape [OF this]
  have df': "df' = DfFrame (d\<lparr>schema := S\<lparr>description := py_or desc (description S),
                            name := sanitize_sql_table_name X (name S)\<rparr>\<rparr>)"
    by (simp add: alias_schema_def)
  have cols: "(case cols of
           None \<Rightarrow> columns S = columns (schema d)
         | Some l \<Rightarrow>
             if l \<noteq> [] then parse_all (make_Column X) cols = Inr (columns S)
             else columns S = columns (schema d))"
  proof (cases pcs)
    case None
    with parse_all_None [of "make_Column X" cols] pc show ?thesis
      by (auto simp: S_def overridden_schema_def)
  next
    case (Some ys)
    with parse_all_Some [of "make_Column X" cols ys] pc show ?thesis
      by (auto simp: S_def overridden_schema_def)
  qed
  show ?thesis
    using df' pt cols by (auto simp: S_def overridden_schema_def split: option.splits)
qed

text \<open>
  C10 as stated fails for an empty list: with \<^verbatim>\<open>columns=[]\<close> and \<^verbatim>\<open>transformations=[]\<close>
  the call succeeds, the columns of \<^verbatim>\<open>df.schema\<close> are still the two columns of the
  DataFrame and not the empty list, and the transformations are \<^verbatim>\<open>None\<close>.
\<close>


theorem create_mutates_dataframe_schema_counterexample:
  "fst (create ref_collaborators ''acme/sales'' (DfFrame sales_df) None (Some []) None None False
          None (Some []) empty_fm)
     = Inr (ConcreteDataFrame \<lparr>schema = sales_schema, data = data sales_df\<rparr>)
   \<and> map_option columns (df_schema (snd (snd
         (create ref_collaborators ''acme/sales'' (DfFrame sales_df) None (Some []) None None
            False None (Some []) empty_fm))))
     = Some (columns sales_schema)
   \<and> columns sales_schema \<noteq> Some []
   \<and> map_option transformations (df_schema (snd (snd
         (create ref_collaborators ''acme/sales'' (DfFrame sales_df) None (Some []) None None
            False None (Some []) empty_fm))))
     = Some None"
  by code_simp

text \<open>
  C1, as amended. A call of \<^verbatim>\<open>create\<close> with none of \<^verbatim>\<open>df\<close>, \<^verbatim>\<open>source\<close> and \<^verbatim>\<open>view=True\<close>
  always fails and writes no file; on a valid path with no dataset yet the failure is
  \<^verbatim>\<open>InvalidConfigError\<close>, after the directory has been created. Several kind indicators
  at once are no error: a DataFrame takes precedence, so \<^verbatim>\<open>source\<close>, \<^verbatim>\<open>relations\<close> and
  \<^verbatim>\<open>view\<close> are ignored beside it, and without a DataFrame \<^verbatim>\<open>view=True\<close> takes precedence
  and \<^verbatim>\<open>source\<close> is ignored.
\<close>


theorem create_kind_precedence:
  "(get_validated_dataset_path path = Some (org, ds) \<and>
      \<not> (fm_exists fm (directory_of org ds) \<and> fm_exists fm (descriptor_of org ds)) \<longrightarrow>
      create X path DfNone desc cols None rels False gb trs fm
        = (Inl InvalidConfigError, fm_mkdir fm (directory_of org ds), DfNone))
   \<and> (\<exists>e. fst (create X path DfNone desc cols None rels False gb trs fm) = Inl e)
   \<and> files (fst (snd (create X path DfNone desc cols None rels False gb trs fm))) = files fm
   \<and> create X path (DfFrame d) desc cols src rels vw gb trs fm
        = create X path (DfFrame d) desc cols None None False gb trs fm
   \<and> create X path DfNone desc cols src rels True gb trs fm
        = create X path DfNone desc cols None rels True gb trs fm"
proof (intro conjI impI)
  assume "get_validated_dataset_path path = Some (org, ds) \<and>
      \<not> (fm_exists fm (directory_of org ds) \<and> fm_exists fm (descriptor_of org ds))"
  then show "create X path DfNone desc cols None rels False gb trs fm
        = (Inl InvalidConfigError, fm_mkdir fm (directory_of org ds), DfNone)"
    by (auto simp: create_def Let_def directory_of_def descriptor_of_def)
next
  show "\<exists>e. fst (create X path DfNone desc cols None rels False gb trs fm) = Inl e"
    by (auto simp: create_def Let_def split: option.splits)
next
  show "files (fst (snd (create X path DfNone desc cols None rels False gb trs fm))) = files fm"
    by (auto simp: create_def Let_def fm_mkdir_def split: option.splits)
next
  show "create X path (DfFrame d) desc cols src rels vw gb trs fm
        = create X path (DfFrame d) desc cols None None False gb trs fm"
    by (simp add: create_def Let_def split: option.split sum.split)
next
  show "create X path DfNone desc cols src rels True gb trs fm
        = create X path DfNone desc cols None rels True gb trs fm"
    by (simp add: create_def Let_def split: option.split sum.split)
qed

theorem create_kind_precedence_witness:
  "get_validated_dataset_path ''acme/sales'' = Some (''acme'', ''sales'')
   \<and> \<not> (fm_exists empty_fm (directory_of ''acme'' ''sales'')
         \<and> fm_exists empty_fm (descriptor_of ''acme'' ''sales''))
   \<and> create ref_collaborators ''acme/sales'' DfNone None None None None False None None empty_fm
       = (Inl InvalidConfigError, fm_mkdir empty_fm (directory_of ''acme'' ''sales''), DfNone)"
  using create_kind_precedence [of "''acme/sales''" "''acme''" "''sales''" empty_fm
      ref_collaborators None None None None None] sales_path empty_fresh
  by blast

text \<open>
  C1 as stated fails: a call with both a source and \<^verbatim>\<open>view=True\<close> with relations
  succeeds. It creates a view, and the descriptor it writes has no source. And a call with
  none of the three on a path that is not valid fails with \<^verbatim>\<open>InvalidPathError\<close>, not with
  \<^verbatim>\<open>InvalidConfigError\<close>.
\<close>


theorem conflicting_kinds_counterexample:
  "fst (create ref_collaborators ''acme/joined'' DfNone None None (Some orders_source)
          (Some [orders_relation]) True None None empty_fm)
     = Inr (VirtualDataFrame joined_schema)
   \<and> files (fst (snd (create ref_collaborators ''acme/joined'' DfNone None None
                        (Some orders_source) (Some [orders_relation]) True None None empty_fm)))
       (fm_abs_path empty_fm (descriptor_of ''acme'' ''joined''))
     = Some (Descriptor joined_schema)
   \<and> fst (create ref_collaborators ''acme/Sales'' DfNone None None None None False None None
            empty_fm)
     = Inl InvalidPathError"
  by code_simp

text \<open>
  C8. With no DataFrame and \<^verbatim>\<open>view=False\<close>: if the source configuration names a table
  (and the path is valid with no dataset yet, the entries are well formed and the schema
  validates), \<^verbatim>\<open>create\<close> persists a schema carrying the source configuration and returns
  the lazily backed dataset; if the source configuration names no table, \<^verbatim>\<open>create\<close>
  fails and writes no file.
\<close>


theorem source_backed_requires_table:
  "(get_validated_dataset_path path = Some (org, ds)
      \<and> \<not> (fm_exists fm (directory_of org ds) \<and> fm_exists fm (descriptor_of org ds))
      \<and> parse_all (make_Transformation X) trs = Inr pts
      \<and> parse_all (make_Column X) cols = Inr pcs
      \<and> truthy (dict_get sd ''table'')
      \<and> make_Source X sd = Some so
      \<and> S = source_schema (transform_dash_to_underscore ds) so pcs gb pts
      \<and> validate S = None
    \<longrightarrow> create X path DfNone desc cols (Some sd) rels False gb trs fm
        = (Inr (VirtualDataFrame (S\<lparr>description := py_or desc None,
                                    name := sanitize_sql_table_name X (name S)\<rparr>)),
           fm_write (fm_mkdir fm (directory_of org ds)) (descriptor_of org ds)
             (Descriptor (S\<lparr>description := py_or desc None\<rparr>)),
           DfNone)
      \<and> source S = Some so)
   \<and> (\<not> truthy (dict_get sd ''table'')
    \<longrightarrow> (\<exists>e. fst (create X path DfNone desc cols (Some sd) rels False gb trs fm) = Inl e)
      \<and> files (fst (snd (create X path DfNone desc cols (Some sd) rels False gb trs fm)))
          = files fm)"
proof (intro conjI impI)
  assume a: "get_validated_dataset_path path = Some (org, ds)
      \<and> \<not> (fm_exists fm (directory_of org ds) \<and> fm_exists fm (descriptor_of org ds))
      \<and> parse_all (make_Transformation X) trs = Inr pts
      \<and> parse_all (make_Column X) cols = Inr pcs
      \<and> truthy (dict_get sd ''table'')
      \<and> make_Source X sd = Some so
      \<and> S = source_schema (transform_dash_to_underscore ds) so pcs gb pts
      \<and> validate S = None"
  then have p: "get_validated_dataset_path path = Some (org, ds)"
    and fresh: "\<not> (fm_exists fm (directory_of org ds) \<and> fm_exists fm (descriptor_of org ds))"
    and pt: "parse_all (make_Transformation X) trs = Inr pts"
    and pc: "parse_all (make_Column X) cols = Inr pcs"
    and t: "truthy (dict_get sd ''table'')" and so: "make_Source X sd = Some so"
    and S: "S = source_schema (transform_dash_to_underscore ds) so pcs gb pts"
    and v: "validate S = None"
    by blast+
  have k: "kind_of (S\<lparr>description := x, name := y\<rparr>) \<noteq> Materialized" for x y
    by (simp add: S source_schema_def kind_of_def kind_indicators_def)
  have "create X path DfNone desc cols (Some sd) rels False gb trs fm =
      create_source X path (transform_dash_to_underscore ds) (descriptor_of org ds)
                desc (Some sd) pcs gb pts (fm_mkdir fm (directory_of org ds)) DfNone"
    using create_proceeds [OF p _ fresh _ pt pc, of DfNone "Some sd" False] by simp
  also have "\<dots> = create_finish X path (descriptor_of org ds) desc S
                     (fm_mkdir fm (directory_of org ds)) DfNone"
    using v by (simp add: create_source_def t so S source_schema_def)
  also have "\<dots> = (Inr (VirtualDataFrame (S\<lparr>description := py_or desc None,
                                    name := sanitize_sql_table_name X (name S)\<rparr>)),
           fm_write (fm_mkdir fm (directory_of org ds)) (descriptor_of org ds)
             (Descriptor (S\<lparr>description := py_or desc None\<rparr>)),
           DfNone)"
    using k by (simp add: create_finish_def Let_def loader_load_def alias_schema_def)
      (simp add: S source_schema_def)
  finally show "create X path DfNone desc cols (Some sd) rels False gb trs fm
        = (Inr (VirtualDataFrame (S\<lparr>description := py_or desc None,
                                    name := sanitize_sql_table_name X (name S)\<rparr>)),
           fm_write (fm_mkdir fm (directory_of org ds)) (descriptor_of org ds)
             (Descriptor (S\<lparr>description := py_or desc None\<rparr>)),
           DfNone)" .
  show "source S = Some so" by (simp add: S source_schema_def)
next
  assume n: "\<not> truthy (dict_get sd ''table'')"
  obtain r fm' df' where c: "create X path DfNone desc cols (Some sd) rels False gb trs fm = (r, fm', df')"
    by (metis prod_cases3)
  have "(\<exists>e. r = Inl e) \<and> files fm' = files fm"
  proof (cases "get_validated_dataset_path path")
    case None
    with c show ?thesis by (auto simp: create_def)
  next
    case (Some a)
    then obtain org' ds' where p: "get_validated_dataset_path path = Some (org', ds')"
      by (cases a) simp
    show ?thesis
    proof (cases "fm_exists fm (directory_of org' ds') \<and> fm_exists fm (descriptor_of org' ds')")
      case True
      with c p show ?thesis
        by (auto simp: create_def directory_of_def descriptor_of_def)
    next
      case fresh: False
      show ?thesis
      proof (cases "parse_all (make_Transformation X) trs")
        case (Inl e)
        with c p fresh show ?thesis
          by (auto simp: create_def Let_def directory_of_def descriptor_of_def fm_mkdir_def)
      next
        case pt: (Inr pts')
        show ?thesis
        proof (cases "parse_all (make_Column X) cols")
          case (Inl e)
          with c p fresh pt show ?thesis
            by (auto simp: create_def Let_def directory_of_def descriptor_of_def fm_mkdir_def)
        next
          case pc: (Inr pcs')
          from create_proceeds [OF p _ fresh _ pt pc, of DfNone "Some sd" False] c n
          show ?thesis
            by (auto simp: create_source_def fm_mkdir_def)
        qed
      qed
    qed
  qed
  with c show "\<exists>e. fst (create X path DfNone desc cols (Some sd) rels False gb trs fm) = Inl e"
    and "files (fst (snd (create X path DfNone desc cols (Some sd) rels False gb trs fm))) = files fm"
    by simp_all
qed

lemma orders_facts:
  "truthy (dict_get orders_source ''table'')"
  "make_Source ref_collaborators orders_source = Some \<lparr>src_type = ''mysql'', src_table = Some ''orders''\<rparr>"
  "validate (source_schema (transform_dash_to_underscore ''sales'')
               \<lparr>src_type = ''mysql'', src_table = Some ''orders''\<rparr> None None None) = None"
  "parse_all (make_Column ref_collaborators) None = Inr None"
  "\<not> truthy (dict_get typed_source ''table'')"
  "fst (create ref_collaborators ''acme/sales'' DfNone None None (Some typed_source) None False
          None None empty_fm) = Inl UnboundLocalError"
  by code_simp+

theorem source_backed_requires_table_witness:
  "truthy (dict_get orders_source ''table'')
   \<and> fst (create ref_collaborators ''acme/sales'' DfNone None None (Some orders_source) None
            False None None empty_fm)
       = Inr (VirtualDataFrame
               ((source_schema (transform_dash_to_underscore ''sales'')
                   \<lparr>src_type = ''mysql'', src_table = Some ''orders''\<rparr> None None None)
                \<lparr>description := py_or None None,
                  name := sanitize_sql_table_name ref_collaborators
                            (name (source_schema (transform_dash_to_underscore ''sales'')
                               \<lparr>src_type = ''mysql'', src_table = Some ''orders''\<rparr>
                               None None None))\<rparr>))
   \<and> \<not> truthy (dict_get typed_source ''table'')
   \<and> fst (create ref_collaborators ''acme/sales'' DfNone None None (Some typed_source) None
            False None None empty_fm) = Inl UnboundLocalError
   \<and> files (fst (snd (create ref_collaborators ''acme/sales'' DfNone None None
                        (Some typed_source) None False None None empty_fm)))
       = files empty_fm"
proof -
  note a = source_backed_requires_table [where path = "''acme/sales''" and org = "''acme''"
      and ds = "''sales''" and fm = empty_fm and X = ref_collaborators and trs = None
      and pts = None and cols = None and pcs = None and sd = orders_source
      and so = "\<lparr>src_type = ''mysql'', src_table = Some ''orders''\<rparr>"
      and S = "source_schema (transform_dash_to_underscore ''sales'')
                 \<lparr>src_type = ''mysql'', src_table = Some ''orders''\<rparr> None None None"
      and gb = None and desc = None and rels = None]
  note b = source_backed_requires_table [where path = "''acme/sales''" and fm = empty_fm
      and X = ref_collaborators and trs = None and cols = None and sd = typed_source
      and gb = None and desc = None and rels = None]
  from a sales_path empty_fresh no_transformations_parsed orders_facts
  have 1: "fst (create ref_collaborators ''acme/sales'' DfNone None None (Some orders_source) None
            False None None empty_fm)
       = Inr (VirtualDataFrame
               ((source_schema (transform_dash_to_underscore ''sales'')
                   \<lparr>src_type = ''mysql'', src_table = Some ''orders''\<rparr> None None None)
                \<lparr>description := py_or None None,
                  name := sanitize_sql_table_name ref_collaborators
                            (name (source_schema (transform_dash_to_underscore ''sales'')
                               \<lparr>src_type = ''mysql'', src_table = Some ''orders''\<rparr>
                               None None None))\<rparr>))"
    by simp
  from b orders_facts(5)
  have 2: "files (fst (snd (create ref_collaborators ''acme/sales'' DfNone None None
                        (Some typed_source) None False None None empty_fm)))
       = files empty_fm"
    by blast
  from 1 2 orders_facts show ?thesis by blast
qed

lemma agg_created:
  "fst (create ref_collaborators ''acme/sales'' (DfFrame sales_df) None (Some agg_columns) None
          None False (Some [''category'']) None empty_fm)
   = Inr (ConcreteDataFrame
           \<lparr>schema = sales_schema\<lparr>columns := Some agg_parsed, group_by := Some [''category'']\<rparr>,
            data = data sales_df\<rparr>)"
  by code_simp

lemma agg_caller_schema:
  "df_schema (snd (snd (create ref_collaborators ''acme/sales'' (DfFrame sales_df) None
          (Some agg_columns) None None False (Some [''category'']) None empty_fm)))
   = Some (sales_schema\<lparr>columns := Some agg_parsed, group_by := Some [''category'']\<rparr>)"
  by code_simp

theorem create_mutates_dataframe_schema_witness:
  "get_validated_dataset_path ''acme/sales'' = Some (''acme'', ''sales'')
   \<and> fst (create ref_collaborators ''acme/sales'' (DfFrame sales_df) None (Some agg_columns) None
          None False (Some [''category'']) None empty_fm)
     = Inr (ConcreteDataFrame
           \<lparr>schema = sales_schema\<lparr>columns := Some agg_parsed, group_by := Some [''category'']\<rparr>,
            data = data sales_df\<rparr>)
   \<and> (\<exists>d'. snd (snd (create ref_collaborators ''acme/sales'' (DfFrame sales_df) None
                        (Some agg_columns) None None False (Some [''category'']) None empty_fm))
            = DfFrame d'
          \<and> data d' = data sales_df
          \<and> name (schema d') = ''sales''
          \<and> columns (schema d') = Some agg_parsed
          \<and> group_by (schema d') = Some [''category''])"
proof -
  let ?c = "create ref_collaborators ''acme/sales'' (DfFrame sales_df) None (Some agg_columns) None
          None False (Some [''category'']) None empty_fm"
  have c: "?c = (Inr (ConcreteDataFrame
           \<lparr>schema = sales_schema\<lparr>columns := Some agg_parsed, group_by := Some [''category'']\<rparr>,
            data = data sales_df\<rparr>), fst (snd ?c), snd (snd ?c))"
    using agg_created by (simp add: prod_eq_iff)
  from create_mutates_dataframe_schema [OF sales_path c]
  obtain d' where d': "snd (snd ?c) = DfFrame d'" "data d' = data sales_df"
    "group_by (schema d') = Some [''category'']"
    by auto
  from d'(1) agg_caller_schema have "schema d' =
      sales_schema\<lparr>columns := Some agg_parsed, group_by := Some [''category'']\<rparr>"
    by (simp add: df_schema_def)
  then have "name (schema d') = ''sales''" "columns (schema d') = Some agg_parsed"
    by (simp_all add: sales_schema_def)
  with d' sales_path agg_created show ?thesis by blast
qed

text \<open>
  C5, as amended. For a valid path, on a storage where the descriptor's directory exists
  whenever the descriptor does, \<^verbatim>\<open>load\<close> fails with \<^verbatim>\<open>DatasetNotFound\<close> exactly when no
  descriptor exists at the dataset location. For a path string that is not valid, \<^verbatim>\<open>load\<close>
  fails with \<^verbatim>\<open>InvalidPathError\<close>, descriptor or not.
\<close>


theorem load_not_found_condition:
  "(get_validated_dataset_path path = Some (org, ds)
      \<and> (files fm (fm_abs_path fm (descriptor_of org ds)) \<noteq> None \<longrightarrow>
           os_path_exists fm (fm_abs_path fm (directory_of org ds)))
    \<longrightarrow> (load X path fm = Inl DatasetNotFound)
          = (files fm (fm_abs_path fm (descriptor_of org ds)) = None))
   \<and> (get_validated_dataset_path path = None \<longrightarrow> load X path fm = Inl InvalidPathError)"
proof (intro conjI impI)
  assume a: "get_validated_dataset_path path = Some (org, ds)
      \<and> (files fm (fm_abs_path fm (descriptor_of org ds)) \<noteq> None \<longrightarrow>
           os_path_exists fm (fm_abs_path fm (directory_of org ds)))"
  then have p: "get_validated_dataset_path path = Some (org, ds)" by blast
  note loc = payload_path_of_path [OF p]
  have full: "os_path_join (os_path_join (project_root fm) ''datasets'') path
     = fm_abs_path fm (directory_of org ds)"
    using loc(3) by (simp add: fm_abs_path_def storage_root_def)
  have nl: "loader_load X s path fm \<noteq> Inl DatasetNotFound" for s
    using loader_load_error [of X s path fm DatasetNotFound] by auto
  show "(load X path fm = Inl DatasetNotFound)
          = (files fm (fm_abs_path fm (descriptor_of org ds)) = None)"
  proof (cases "files fm (fm_abs_path fm (descriptor_of org ds))")
    case None
    then show ?thesis
      by (simp add: load_def p Let_def full create_loader_from_path_def loc(2))
  next
    case (Some c)
    with a have e: "os_path_exists fm (fm_abs_path fm (directory_of org ds))" by simp
    have "load X path fm \<noteq> Inl DatasetNotFound"
    proof (cases c)
      case (Parquet t)
      with Some e show ?thesis
        by (simp add: load_def p Let_def full create_loader_from_path_def loc(2))
    next
      case (Descriptor s)
      show ?thesis
      proof (cases "validate s")
        case None
        with Descriptor Some e nl show ?thesis
          by (simp add: load_def p Let_def full create_loader_from_path_def loc(2))
      next
        case (Some err)
        with validate_cases [of s] have "err = InvalidConfigError" by simp
        with Some Descriptor \<open>files fm _ = Some c\<close> e show ?thesis
          by (simp add: load_def p Let_def full create_loader_from_path_def loc(2))
      qed
    qed
    with Some show ?thesis by simp
  qed
next
  assume "get_validated_dataset_path path = None"
  then show "load X path fm = Inl InvalidPathError" by (simp add: load_def)
qed

lemma empty_descriptor_absent:
  "files empty_fm (fm_abs_path empty_fm (descriptor_of ''acme'' ''sales'')) = None"
  by code_simp

lemma upper_path_invalid: "get_validated_dataset_path ''acme/Sales'' = None"
  by code_simp

theorem load_not_found_condition_witness:
  "get_validated_dataset_path ''acme/sales'' = Some (''acme'', ''sales'')
   \<and> files empty_fm (fm_abs_path empty_fm (descriptor_of ''acme'' ''sales'')) = None
   \<and> load ref_collaborators ''acme/sales'' empty_fm = Inl DatasetNotFound
   \<and> get_validated_dataset_path ''acme/Sales'' = None
   \<and> load ref_collaborators ''acme/Sales'' empty_fm = Inl InvalidPathError"
  using load_not_found_condition [of "''acme/sales''" "''acme''" "''sales''" empty_fm ref_collaborators]
    load_not_found_condition [of "''acme/Sales''" _ _ empty_fm ref_collaborators]
    sales_path empty_descriptor_absent upper_path_invalid
  by simp

text \<open>
  C5 as stated fails for a path string that is not valid: no descriptor exists at the
  location, and \<^verbatim>\<open>load\<close> fails with \<^verbatim>\<open>InvalidPathError\<close>, not with \<^verbatim>\<open>DatasetNotFound\<close>.
\<close>


theorem load_not_found_counterexample:
  "files empty_fm (fm_abs_path empty_fm (os_path_join ''acme/Sales'' ''schema.yaml'')) = None
   \<and> load ref_collaborators ''acme/Sales'' empty_fm = Inl InvalidPathError
   \<and> load ref_collaborators ''acme/Sales'' empty_fm \<noteq> Inl DatasetNotFound"
  by code_simp

text \<open>
  C4, as amended. After a successful \<^verbatim>\<open>create\<close> with a DataFrame, \<^verbatim>\<open>load\<close> on the same path
  returns the dataset of the persisted schema. For a DataFrame whose own schema is of the
  materialized kind it is a concrete dataset: its columns (names and types) are the
  \<^verbatim>\<open>columns\<close> override when one is supplied and those of the input when \<^verbatim>\<open>columns\<close> is
  omitted or empty, and its rows are the input rows with the supplied transformations
  applied in order. So with no override and with transformations that leave the payload
  as it is, names, types and rows are those of the input. For a DataFrame whose own schema
  carries a source or the view flag, \<^verbatim>\<open>load\<close> returns a lazily backed dataset.
\<close>

theorem create_then_load_roundtrip:
  assumes p: "get_validated_dataset_path path = Some (org, ds)"
    and c: "create X path (DfFrame d) desc cols src rels vw gb trs fm = (Inr dset, fm', df')"
    and pt: "parse_all (make_Transformation X) trs = Inr pts"
    and pc: "parse_all (make_Column X) cols = Inr pcs"
    and L: "L = with_sanitized_name X (with_description desc
                  (overridden_schema d (transform_dash_to_underscore ds) pts pcs gb))"
  shows "(kind_of (schema d) = Materialized \<longrightarrow>
           load X path fm'
             = Inr (ConcreteDataFrame \<lparr>schema = L, data = apply_transformations X pts (data d)\<rparr>))
    \<and> (kind_of (schema d) \<noteq> Materialized \<longrightarrow> load X path fm' = Inr (VirtualDataFrame L))
    \<and> (cols = None \<or> cols = Some [] \<longrightarrow> columns L = columns (schema d))
    \<and> (\<forall>override. pcs = Some override \<longrightarrow> columns L = Some override)
    \<and> (kind_of (schema d) = Materialized \<and> (cols = None \<or> cols = Some [])
          \<and> apply_transformations X pts (data d) = data d \<longrightarrow>
         (\<exists>l. load X path fm' = Inr (ConcreteDataFrame l)
              \<and> columns (schema l) = columns (schema d)
              \<and> column_signature (schema l) = column_signature (schema d)
              \<and> data l = data d))"
proof -
  define S where "S = overridden_schema d (transform_dash_to_underscore ds) pts pcs gb"
  from create_success_proceeded [OF p c]
  have fresh: "\<not> (fm_exists fm (directory_of org ds) \<and> fm_exists fm (descriptor_of org ds))"
    by blast
  have u: "create X path (DfFrame d) desc cols src rels vw gb trs fm =
    create_from_df X path (transform_dash_to_underscore ds) (descriptor_of org ds)
           (payload_of org ds) d desc pcs gb pts (fm_mkdir fm (directory_of org ds))"
    using create_proceeds [OF p _ fresh _ pt pc, of "DfFrame d"] by simp
  have v: "validate S = None"
  proof (cases "validate S")
    case (Some e)
    with c u show ?thesis by (simp add: create_from_df_overridden S_def)
  qed simp
  with c u have fm': "fm' = fm_write (to_parquet d (fm_abs_path fm (payload_of org ds))
                              (fm_mkdir fm (directory_of org ds)))
                    (descriptor_of org ds) (Descriptor (with_description desc S))"
    by (simp add: create_from_df_overridden S_def create_finish_eq)
  note ld = load_after_create [OF p v fm', of X]
  have k: "kind_of S = kind_of (schema d)" and tr: "transformations S = pts"
    by (simp_all add: S_def overridden_schema_def kind_of_def kind_indicators_def)
  have LS: "L = with_sanitized_name X (with_description desc S)"
    by (simp add: L S_def)
  have colsL: "columns L = columns S"
    by (simp add: LS with_sanitized_name_def with_description_def)
  have none: "cols = None \<or> cols = Some [] \<Longrightarrow> pcs = None"
    using pc by (auto simp: parse_all_def)
  have 1: "kind_of (schema d) = Materialized \<longrightarrow>
           load X path fm'
             = Inr (ConcreteDataFrame \<lparr>schema = L, data = apply_transformations X pts (data d)\<rparr>)"
    using ld k tr LS by simp
  have 2: "kind_of (schema d) \<noteq> Materialized \<longrightarrow> load X path fm' = Inr (VirtualDataFrame L)"
    using ld k LS by simp
  have 3: "cols = None \<or> cols = Some [] \<longrightarrow> columns L = columns (schema d)"
    using none by (auto simp: colsL S_def overridden_schema_def)
  have 4: "\<forall>override. pcs = Some override \<longrightarrow> columns L = Some override"
    using parse_all_Some [of "make_Column X" cols] pc
    by (auto simp: colsL S_def overridden_schema_def)
  have 5: "kind_of (schema d) = Materialized \<and> (cols = None \<or> cols = Some [])
          \<and> apply_transformations X pts (data d) = data d \<longrightarrow>
         (\<exists>l. load X path fm' = Inr (ConcreteDataFrame l)
              \<and> columns (schema l) = columns (schema d)
              \<and> column_signature (schema l) = column_signature (schema d)
              \<and> data l = data d)"
    using 1 3 by (auto simp: column_signature_def the_columns_def)
  from 1 2 3 4 5 show ?thesis by blast
qed

lemma sales_materialized: "kind_of (schema sales_df) = Materialized"
  by code_simp

lemma roundtrip_facts:
  "parse_all (make_Column ref_collaborators) None = Inr None"
  "parse_all (make_Column ref_collaborators) (Some retyped_columns) = Inr (Some retyped_parsed)"
  "kind_of (schema sourced_df) \<noteq> Materialized"
  "apply_transformations ref_collaborators None (data sales_df) = data sales_df"
  by code_simp+

lemma roundtrip_created:
  "fst (create ref_collaborators ''acme/sales'' (DfFrame sourced_df) None None None None False
          None None empty_fm)
   = Inr (VirtualDataFrame (schema sourced_df))"
  "fst (create ref_collaborators ''acme/sales'' (DfFrame sales_df) None (Some retyped_columns)
          None None False None None empty_fm)
   = Inr (ConcreteDataFrame
           \<lparr>schema = sales_schema\<lparr>columns := Some retyped_parsed\<rparr>, data = data sales_df\<rparr>)"
  by code_simp+

theorem create_then_load_roundtrip_witness:
  "(\<exists>l. load ref_collaborators ''acme/sales''
           (fst (snd (create ref_collaborators ''acme/sales'' (DfFrame sales_df) None None
                        None None False None None empty_fm)))
          = Inr (ConcreteDataFrame l)
        \<and> columns (schema l) = columns (schema sales_df)
        \<and> data l = data sales_df)
   \<and> load ref_collaborators ''acme/sales''
        (fst (snd (create ref_collaborators ''acme/sales'' (DfFrame sourced_df) None None
                     None None False None None empty_fm)))
      = Inr (VirtualDataFrame
              (with_sanitized_name ref_collaborators (with_description None
                 (overridden_schema sourced_df (transform_dash_to_underscore ''sales'')
                    None None None))))
   \<and> load ref_collaborators ''acme/sales''
        (fst (snd (create ref_collaborators ''acme/sales'' (DfFrame sales_df) None
                     (Some retyped_columns) None None False None None empty_fm)))
      = Inr (ConcreteDataFrame
              \<lparr>schema = with_sanitized_name ref_collaborators (with_description None
                   (overridden_schema sales_df (transform_dash_to_underscore ''sales'')
                      None (Some retyped_parsed) None)),
               data = apply_transformations ref_collaborators None (data sales_df)\<rparr>)
   \<and> columns (with_sanitized_name ref_collaborators (with_description None
                   (overridden_schema sales_df (transform_dash_to_underscore ''sales'')
                      None (Some retyped_parsed) None)))
      = Some retyped_parsed"
proof -
  let ?a = "create ref_collaborators ''acme/sales'' (DfFrame sales_df) None None None None False
              None None empty_fm"
  let ?b = "create ref_collaborators ''acme/sales'' (DfFrame sourced_df) None None None None
              False None None empty_fm"
  let ?c = "create ref_collaborators ''acme/sales'' (DfFrame sales_df) None
              (Some retyped_columns) None None False None None empty_fm"
  have a: "?a = (Inr (ConcreteDataFrame \<lparr>schema = sales_schema, data = data sales_df\<rparr>),
                 fst (snd ?a), snd (snd ?a))"
    using sales_created by (simp add: prod_eq_iff)
  have b: "?b = (Inr (VirtualDataFrame (schema sourced_df)), fst (snd ?b), snd (snd ?b))"
    using roundtrip_created(1) by (simp add: prod_eq_iff)
  have c: "?c = (Inr (ConcreteDataFrame
           \<lparr>schema = sales_schema\<lparr>columns := Some retyped_parsed\<rparr>, data = data sales_df\<rparr>),
                 fst (snd ?c), snd (snd ?c))"
    using roundtrip_created(2) by (simp add: prod_eq_iff)
  note ta = create_then_load_roundtrip [OF sales_path a no_transformations_parsed
      roundtrip_facts(1) refl]
  note tb = create_then_load_roundtrip [OF sales_path b no_transformations_parsed
      roundtrip_facts(1) refl]
  note tc = create_then_load_roundtrip [OF sales_path c no_transformations_parsed
      roundtrip_facts(2) refl]
  from ta sales_materialized roundtrip_facts(4)
  have 1: "\<exists>l. load ref_collaborators ''acme/sales'' (fst (snd ?a)) = Inr (ConcreteDataFrame l)
        \<and> columns (schema l) = columns (schema sales_df)
        \<and> data l = data sales_df"
    by blast
  from tb roundtrip_facts(3)
  have 2: "load ref_collaborators ''acme/sales'' (fst (snd ?b))
      = Inr (VirtualDataFrame
              (with_sanitized_name ref_collaborators (with_description None
                 (overridden_schema sourced_df (transform_dash_to_underscore ''sales'')
                    None None None))))"
    by blast
  from tc sales_materialized
  have 3: "load ref_collaborators ''acme/sales'' (fst (snd ?c))
      = Inr (ConcreteDataFrame
              \<lparr>schema = with_sanitized_name ref_collaborators (with_description None
                   (overridden_schema sales_df (transform_dash_to_underscore ''sales'')
                      None (Some retyped_parsed) None)),
               data = apply_transformations ref_collaborators None (data sales_df)\<rparr>)"
    and 4: "columns (with_sanitized_name ref_collaborators (with_description None
                   (overridden_schema sales_df (transform_dash_to_underscore ''sales'')
                      None (Some retyped_parsed) None)))
      = Some retyped_parsed"
    by blast+
  from 1 2 3 4 show ?thesis by blast
qed

text \<open>
  C4 as stated fails in three ways. With a column override that gives \<^verbatim>\<open>amount\<close> the type
  \<^verbatim>\<open>integer\<close>, the loaded dataset has that type where the input has \<^verbatim>\<open>float\<close>. With the
  transformation \<^verbatim>\<open>fill_na\<close> on \<^verbatim>\<open>amount\<close>, the loaded rows have 0 where the input has a
  missing value. With a DataFrame whose schema carries a source, \<^verbatim>\<open>create\<close> and \<^verbatim>\<open>load\<close>
  return a lazily backed dataset, which has no rows to compare.
\<close>

theorem create_then_load_roundtrip_counterexample:
  "load ref_collaborators ''acme/sales''
     (fst (snd (create ref_collaborators ''acme/sales'' (DfFrame sales_df) None
                  (Some retyped_columns) None None False None None empty_fm)))
   = Inr (ConcreteDataFrame
           \<lparr>schema = sales_schema
               \<lparr>columns := Some [\<lparr>col_name = ''category'', col_type = ''string'',
                                    col_description = None, col_expression = None,
                                    col_alias = None\<rparr>,
                                  \<lparr>col_name = ''amount'', col_type = ''integer'',
                                    col_description = None, col_expression = None,
                                    col_alias = None\<rparr>]\<rparr>,
            data = data sales_df\<rparr>)
   \<and> column_signature (schema sales_df) = [(''category'', ''string''), (''amount'', ''float'')]
   \<and> load ref_collaborators ''acme/sales''
     (fst (snd (create ref_collaborators ''acme/sales'' (DfFrame sales_df) None None None None
                  False None (Some fill_amount) empty_fm)))
   = Inr (ConcreteDataFrame
           \<lparr>schema = sales_schema
               \<lparr>transformations :=
                  Some [\<lparr>tr_type = ''fill_na'',
                         tr_params = [(''column'', PyStr ''amount''), (''value'', PyInt 0)]\<rparr>]\<rparr>,
            data = [(''category'', [PyStr ''a'', PyStr ''b'', PyStr ''a'']),
                    (''amount'', [PyInt 1, PyInt 0, PyInt 3])]\<rparr>)
   \<and> data sales_df = [(''category'', [PyStr ''a'', PyStr ''b'', PyStr ''a'']),
                      (''amount'', [PyInt 1, PyNone, PyInt 3])]
   \<and> fst (create ref_collaborators ''acme/sales'' (DfFrame sourced_df) None None None None
            False None None empty_fm)
   = Inr (VirtualDataFrame (schema sourced_df))
   \<and> load ref_collaborators ''acme/sales''
     (fst (snd (create ref_collaborators ''acme/sales'' (DfFrame sourced_df) None None None None
                  False None None empty_fm)))
   = Inr (VirtualDataFrame (schema sourced_df))"
  by code_simp

text \<open>
  C6, as amended. A schema with an aggregated column and a plain column that is not in
  \<^verbatim>\<open>group_by\<close> fails validation. If that column is its only defect (the name, column and
  kind checks pass and every other plain column is in \<^verbatim>\<open>group_by\<close>), the same schema with
  the column added to \<^verbatim>\<open>group_by\<close> passes validation.
\<close>


theorem aggregation_requires_group_by:
  "(list_ex aggregated (the_columns s) \<and> p \<in> set (the_columns s) \<and> \<not> aggregated p
      \<and> col_name p \<notin> set (the_group_by s)
    \<longrightarrow> validate s = Some InvalidConfigError)
   \<and> (list_ex aggregated (the_columns s) \<and> p \<in> set (the_columns s) \<and> \<not> aggregated p
      \<and> col_name p \<notin> set (the_group_by s)
      \<and> check_name s \<and> check_columns s \<and> check_kind s
      \<and> (\<forall>c \<in> set (the_columns s).
            \<not> aggregated c \<and> c \<noteq> p \<longrightarrow> col_name c \<in> set (the_group_by s))
    \<longrightarrow> validate (s\<lparr>group_by := Some (the_group_by s @ [col_name p])\<rparr>) = None)"
proof (intro conjI impI)
  assume a: "list_ex aggregated (the_columns s) \<and> p \<in> set (the_columns s) \<and> \<not> aggregated p
      \<and> col_name p \<notin> set (the_group_by s)"
  then have "col_name p \<in> set (plain_names s)"
    by (auto simp: plain_names_def)
  with a have "\<not> check_aggregation s"
    by (auto simp: check_aggregation_def list_all_iff)
  then show "validate s = Some InvalidConfigError"
    by (simp add: validate_def)
next
  assume a: "list_ex aggregated (the_columns s) \<and> p \<in> set (the_columns s) \<and> \<not> aggregated p
      \<and> col_name p \<notin> set (the_group_by s)
      \<and> check_name s \<and> check_columns s \<and> check_kind s
      \<and> (\<forall>c \<in> set (the_columns s).
            \<not> aggregated c \<and> c \<noteq> p \<longrightarrow> col_name c \<in> set (the_group_by s))"
  let ?s = "s\<lparr>group_by := Some (the_group_by s @ [col_name p])\<rparr>"
  from a have pn: "col_name p \<in> set (plain_names s)"
    by (auto simp: plain_names_def)
  from a pn have 2: "check_columns ?s"
    by (auto simp: check_columns_def list_all_iff)
  from a have "\<forall>n \<in> set (plain_names s). n \<in> set (the_group_by s) \<or> n = col_name p"
    by (auto simp: plain_names_def)
  then have 3: "check_aggregation ?s"
    by (auto simp: check_aggregation_def list_all_iff)
  from a 2 3 show "validate ?s = None"
    by (simp add: validate_def)
qed

lemma agg_schema_defect:
  "list_ex aggregated (the_columns (sales_schema\<lparr>columns := Some agg_parsed\<rparr>))"
  "category_column \<in> set (the_columns (sales_schema\<lparr>columns := Some agg_parsed\<rparr>))"
  "\<not> aggregated category_column"
  "col_name category_column \<notin> set (the_group_by (sales_schema\<lparr>columns := Some agg_parsed\<rparr>))"
  "check_name (sales_schema\<lparr>columns := Some agg_parsed\<rparr>)"
  "check_columns (sales_schema\<lparr>columns := Some agg_parsed\<rparr>)"
  "check_kind (sales_schema\<lparr>columns := Some agg_parsed\<rparr>)"
  by code_simp+

lemma agg_schema_others:
  "\<forall>c \<in> set (the_columns (sales_schema\<lparr>columns := Some agg_parsed\<rparr>)).
      \<not> aggregated c \<and> c \<noteq> category_column
      \<longrightarrow> col_name c \<in> set (the_group_by (sales_schema\<lparr>columns := Some agg_parsed\<rparr>))"
  by code_simp

theorem aggregation_requires_group_by_witness:
  "validate (sales_schema\<lparr>columns := Some agg_parsed\<rparr>) = Some InvalidConfigError
   \<and> validate (sales_schema\<lparr>columns := Some agg_parsed,
                  group_by := Some (the_group_by (sales_schema\<lparr>columns := Some agg_parsed\<rparr>)
                                     @ [col_name category_column])\<rparr>) = None"
  using aggregation_requires_group_by [of "sales_schema\<lparr>columns := Some agg_parsed\<rparr>"
      category_column] agg_schema_defect agg_schema_others
  by blast

text \<open>
  C6 as stated fails for a schema with two plain columns outside \<^verbatim>\<open>group_by\<close>: adding
  one of them to \<^verbatim>\<open>group_by\<close> leaves the other uncovered, and validation still fails.
\<close>


theorem aggregation_requires_group_by_counterexample:
  "list_ex aggregated (the_columns regional_schema)
   \<and> category_column \<in> set (the_columns regional_schema)
   \<and> \<not> aggregated category_column
   \<and> col_name category_column \<notin> set (the_group_by regional_schema)
   \<and> validate regional_schema = Some InvalidConfigError
   \<and> validate (regional_schema
        \<lparr>group_by := Some (the_group_by regional_schema @ [col_name category_column])\<rparr>)
       = Some InvalidConfigError"
  by code_simp

end
